theory Spec2Isabelle
  imports Complex_Main "HOL-Library.Word"
begin

section \<open>Values of the JavaScript program\<close>

text \<open>
  The program is \<^verbatim>\<open>src/fastly-gorkbot.js\<close>. A JavaScript string is a sequence of 16-bit
  code units, a \<^verbatim>\<open>Uint8Array\<close> a sequence of bytes. A value that may be \<^verbatim>\<open>null\<close> or
  \<^verbatim>\<open>undefined\<close> (a header that is not there, an environment variable that is not set, a
  property that an object does not have) is an \<open>option\<close>, with \<open>None\<close> for the missing
  value. An exception is a value of \<open>js_error\<close>, on the left of a sum.
\<close>

type_synonym byte = "8 word"
type_synonym code_unit = "16 word"
type_synonym jsstring = "code_unit list"

datatype js_error = TypeError | SyntaxError | DataError | NotSupportedError | OperationError

text \<open>A string literal of the source whose characters are all ASCII.\<close>

definition str :: "string \<Rightarrow> jsstring" where
  "str s = map (\<lambda>c. of_nat (of_char c)) s"

text \<open>
  The values \<^verbatim>\<open>JSON.parse\<close> returns. A number is an IEEE double; every finite double is a
  rational, and a literal too large for a double is read as an infinity. An object is the
  list of its own properties, each name in it once, read with \<open>map_of\<close>.
\<close>

datatype number = Finite rat | PosInfinity | NegInfinity

datatype json =
    JNull
  | JBool bool
  | JNumber number
  | JString jsstring
  | JArray "json list"
  | JObject "(jsstring \<times> json) list"

abbreviation num :: "rat \<Rightarrow> json" where
  "num q \<equiv> JNumber (Finite q)"

section \<open>hexToBytes\<close>

text \<open>
  \<^verbatim>\<open>parseInt(string, 16)\<close> as ECMAScript defines it: leading white space is dropped, then
  one sign, then one \<^verbatim>\<open>0x\<close> or \<^verbatim>\<open>0X\<close>; the digits are the longest run of hexadecimal
  digits that follows; with no digit the result is \<^verbatim>\<open>NaN\<close>, here \<open>None\<close>. (The rounding
  of a result beyond \<open>2 ^ 53\<close> is left out: \<^verbatim>\<open>hexToBytes\<close> passes at most two code units.)
\<close>

definition is_white_space :: "code_unit \<Rightarrow> bool" where
  "is_white_space c \<longleftrightarrow>
     unat c \<in> {0x9, 0xA, 0xB, 0xC, 0xD, 0x20, 0xA0, 0x1680, 0x2028, 0x2029, 0x202F, 0x205F, 0x3000, 0xFEFF}
     \<or> (0x2000 \<le> unat c \<and> unat c \<le> 0x200A)"

definition digit_value :: "code_unit \<Rightarrow> nat option" where
  "digit_value c =
     (let n = unat c in
      if 0x30 \<le> n \<and> n \<le> 0x39 then Some (n - 0x30)
      else if 0x41 \<le> n \<and> n \<le> 0x46 then Some (n - 0x37)
      else if 0x61 \<le> n \<and> n \<le> 0x66 then Some (n - 0x57)
      else None)"

definition is_hex_digit :: "code_unit \<Rightarrow> bool" where
  "is_hex_digit c \<longleftrightarrow> digit_value c \<noteq> None"

definition radix16_value :: "jsstring \<Rightarrow> nat" where
  "radix16_value Z = foldl (\<lambda>acc c. 16 * acc + (case digit_value c of Some d \<Rightarrow> d | None \<Rightarrow> 0)) 0 Z"

definition parseInt16 :: "jsstring \<Rightarrow> int option" where
  "parseInt16 string =
     (let S1 = dropWhile is_white_space string;
          sign = (if S1 \<noteq> [] \<and> hd S1 = 0x2D then - 1 else 1);
          S2 = (if S1 \<noteq> [] \<and> (hd S1 = 0x2B \<or> hd S1 = 0x2D) then tl S1 else S1);
          S3 = (if 2 \<le> length S2 \<and> (take 2 S2 = str ''0x'' \<or> take 2 S2 = str ''0X'')
                then drop 2 S2 else S2);
          Z = takeWhile is_hex_digit S3
      in if Z = [] then None else Some (sign * int (radix16_value Z)))"

text \<open>\<^verbatim>\<open>hex.substr(start, length)\<close> for a start inside the string or at its end.\<close>

definition substr :: "jsstring \<Rightarrow> nat \<Rightarrow> nat \<Rightarrow> jsstring" where
  "substr s start len = take len (drop start s)"

text \<open>
  Storing a number in a \<^verbatim>\<open>Uint8Array\<close>: \<^verbatim>\<open>NaN\<close> is stored as 0, an integer modulo 256,
  and a store at an index outside the array does nothing.
\<close>

definition ToUint8 :: "int option \<Rightarrow> byte" where
  "ToUint8 v = (case v of None \<Rightarrow> 0 | Some n \<Rightarrow> of_int n)"

definition set_element :: "byte list \<Rightarrow> nat \<Rightarrow> int option \<Rightarrow> byte list" where
  "set_element bytes k v = (if k < length bytes then bytes[k := ToUint8 v] else bytes)"

text \<open>
  The loop of \<^verbatim>\<open>hexToBytes\<close>, \<^verbatim>\<open>for (let i = 0; i < hex.length; i += 2)\<close>; \<open>i\<close> is even,
  so \<^verbatim>\<open>i / 2\<close> is \<open>i div 2\<close>. The array has \<^verbatim>\<open>hex.length / 2\<close> elements, rounded down,
  all 0 at first.
\<close>

function hexToBytes_loop :: "jsstring \<Rightarrow> nat \<Rightarrow> byte list \<Rightarrow> byte list" where
  "hexToBytes_loop hex i bytes =
     (if i < length hex
      then hexToBytes_loop hex (i + 2) (set_element bytes (i div 2) (parseInt16 (substr hex i 2)))
      else bytes)"
  by pat_completeness auto
termination
  by (relation "measure (\<lambda>(hex, i, bytes). length hex - i)") auto

declare hexToBytes_loop.simps [simp del]

definition hexToBytes :: "jsstring \<Rightarrow> byte list" where
  "hexToBytes hex = hexToBytes_loop hex 0 (replicate (length hex div 2) 0)"

section \<open>Text and bytes\<close>

text \<open>
  \<^verbatim>\<open>req.text()\<close> and \<^verbatim>\<open>new TextEncoder().encode(s)\<close> are functions of the platform. They are
  modelled as the Fetch and Encoding standards define them: \<^verbatim>\<open>text()\<close> drops a leading byte
  order mark and runs the UTF-8 decoder, which writes U+FFFD for every malformed sequence;
  \<^verbatim>\<open>encode\<close> reads the string as scalar values, a surrogate without its partner as U+FFFD,
  and writes their UTF-8 encoding.
\<close>

record utf8_decoder_state =
  code_point :: nat
  bytes_seen :: nat
  bytes_needed :: nat
  lower_boundary :: nat
  upper_boundary :: nat

definition utf8_initial :: utf8_decoder_state where
  "utf8_initial = \<lparr>code_point = 0, bytes_seen = 0, bytes_needed = 0,
                    lower_boundary = 0x80, upper_boundary = 0xBF\<rparr>"

function utf8_decoder :: "utf8_decoder_state \<Rightarrow> nat list \<Rightarrow> nat list" where
  "utf8_decoder st [] = (if bytes_needed st \<noteq> 0 then [0xFFFD] else [])"
| "utf8_decoder st (b # queue) =
     (if bytes_needed st = 0 then
        (if b \<le> 0x7F then b # utf8_decoder st queue
         else if 0xC2 \<le> b \<and> b \<le> 0xDF then
           utf8_decoder (st\<lparr>bytes_needed := 1, code_point := b mod 32\<rparr>) queue
         else if 0xE0 \<le> b \<and> b \<le> 0xEF then
           utf8_decoder (st\<lparr>lower_boundary := (if b = 0xE0 then 0xA0 else lower_boundary st),
                             upper_boundary := (if b = 0xED then 0x9F else upper_boundary st),
                             bytes_needed := 2, code_point := b mod 16\<rparr>) queue
         else if 0xF0 \<le> b \<and> b \<le> 0xF4 then
           utf8_decoder (st\<lparr>lower_boundary := (if b = 0xF0 then 0x90 else lower_boundary st),
                             upper_boundary := (if b = 0xF4 then 0x8F else upper_boundary st),
                             bytes_needed := 3, code_point := b mod 8\<rparr>) queue
         else 0xFFFD # utf8_decoder st queue)
      else if b < lower_boundary st \<or> upper_boundary st < b then
        0xFFFD # utf8_decoder utf8_initial (b # queue)
      else
        (let st' = st\<lparr>lower_boundary := 0x80, upper_boundary := 0xBF,
                       code_point := code_point st * 64 + b mod 64,
                       bytes_seen := bytes_seen st + 1\<rparr>
         in if bytes_seen st' \<noteq> bytes_needed st' then utf8_decoder st' queue
            else code_point st' # utf8_decoder (st'\<lparr>code_point := 0, bytes_needed := 0, bytes_seen := 0\<rparr>) queue))"
  by pat_completeness auto
termination
  by (relation "measures [\<lambda>(st, queue). length queue, \<lambda>(st, queue). bytes_needed st]")
     (auto simp: utf8_initial_def)

declare utf8_decoder.simps [simp del]

definition utf8_decode :: "byte list \<Rightarrow> nat list" where
  "utf8_decode bytes =
     utf8_decoder utf8_initial
       (map unat (if take 3 bytes = [0xEF, 0xBB, 0xBF] then drop 3 bytes else bytes))"

definition utf16_encode_cp :: "nat \<Rightarrow> nat list" where
  "utf16_encode_cp cp =
     (if cp < 0x10000 then [cp]
      else [0xD800 + (cp - 0x10000) div 1024, 0xDC00 + (cp - 0x10000) mod 1024])"

definition utf16_encode :: "nat list \<Rightarrow> jsstring" where
  "utf16_encode cps = map of_nat (concat (map utf16_encode_cp cps))"

fun to_scalar_values :: "nat list \<Rightarrow> nat list" where
  "to_scalar_values [] = []"
| "to_scalar_values [c] = (if c < 0xD800 \<or> 0xDFFF < c then [c] else [0xFFFD])"
| "to_scalar_values (c # d # cs) =
     (if c < 0xD800 \<or> 0xDFFF < c then c # to_scalar_values (d # cs)
      else if 0xDC00 \<le> c then 0xFFFD # to_scalar_values (d # cs)
      else if 0xDC00 \<le> d \<and> d \<le> 0xDFFF
        then (0x10000 + 1024 * (c mod 1024) + d mod 1024) # to_scalar_values cs
      else 0xFFFD # to_scalar_values (d # cs))"

definition utf8_encode_cp :: "nat \<Rightarrow> nat list" where
  "utf8_encode_cp cp =
     (if cp \<le> 0x7F then [cp]
      else if cp \<le> 0x7FF then [0xC0 + cp div 64, 0x80 + cp mod 64]
      else if cp \<le> 0xFFFF then [0xE0 + cp div 4096, 0x80 + cp div 64 mod 64, 0x80 + cp mod 64]
      else [0xF0 + cp div 262144, 0x80 + cp div 4096 mod 64, 0x80 + cp div 64 mod 64,
            0x80 + cp mod 64])"

definition utf8_encode :: "nat list \<Rightarrow> byte list" where
  "utf8_encode cps = map of_nat (concat (map utf8_encode_cp cps))"

definition TextEncoder_encode :: "jsstring \<Rightarrow> byte list" where
  "TextEncoder_encode s = utf8_encode (to_scalar_values (map unat s))"

section \<open>The request, the platform and verifyDiscordSignature\<close>

text \<open>
  Of a request the program reads two headers and the body. \<^verbatim>\<open>headers.get\<close> returns
  \<^verbatim>\<open>null\<close> for a header that is not there.
\<close>

record request =
  x_signature_ed25519 :: "jsstring option"
  x_signature_timestamp :: "jsstring option"
  raw_body :: "byte list"

definition request_text :: "request \<Rightarrow> jsstring" where
  "request_text req = utf16_encode (utf8_decode (raw_body req))"

text \<open>
  What the program takes from the platform and this file leaves open: the configured public
  key \<^verbatim>\<open>env('DISCORD_PUBLIC_KEY')\<close>, \<^verbatim>\<open>crypto.subtle.importKey\<close> and
  \<^verbatim>\<open>crypto.subtle.verify\<close> for Ed25519 (either may reject, that is raise),
  \<^verbatim>\<open>JSON.parse\<close>, and the number \<^verbatim>\<open>Math.random()\<close> returns when the handler calls it.
\<close>

record 'key platform =
  env_DISCORD_PUBLIC_KEY :: "jsstring option"
  importKey :: "byte list \<Rightarrow> js_error + 'key"
  verify :: "'key \<Rightarrow> byte list \<Rightarrow> byte list \<Rightarrow> js_error + bool"
  JSON_parse :: "jsstring \<Rightarrow> js_error + json"
  Math_random :: rat

text \<open>The message handed to \<^verbatim>\<open>crypto.subtle.verify\<close>, line 42.\<close>

definition signed_message :: "jsstring \<Rightarrow> jsstring \<Rightarrow> byte list" where
  "signed_message timestamp body = TextEncoder_encode (timestamp @ body)"

text \<open>
  Lines 16 to 46. \<^verbatim>\<open>!x\<close> holds of \<^verbatim>\<open>null\<close>, \<^verbatim>\<open>undefined\<close> and the empty string. The
  function has no \<^verbatim>\<open>try\<close>: what \<^verbatim>\<open>importKey\<close> or \<^verbatim>\<open>verify\<close> raises, it raises.
\<close>

definition verifyDiscordSignature :: "'key platform \<Rightarrow> request \<Rightarrow> jsstring \<Rightarrow> js_error + bool" where
  "verifyDiscordSignature P req body =
     (case (x_signature_ed25519 req, x_signature_timestamp req, env_DISCORD_PUBLIC_KEY P) of
        (Some signature, Some timestamp, Some publicKey) \<Rightarrow>
          if signature = [] \<or> timestamp = [] \<or> publicKey = [] then Inr False
          else (case importKey P (hexToBytes publicKey) of
                  Inl e \<Rightarrow> Inl e
                | Inr key \<Rightarrow> verify P key (hexToBytes signature) (signed_message timestamp body))
      | _ \<Rightarrow> Inr False)"

section \<open>The interactions endpoint\<close>

datatype content = Text jsstring | Json json

record response =
  res_status :: nat
  res_body :: content

text \<open>\<^verbatim>\<open>res.json(v)\<close> answers with status 200, \<^verbatim>\<open>res.withStatus(n).send(s)\<close> with status n.\<close>

definition res_json :: "json \<Rightarrow> response" where
  "res_json v = \<lparr>res_status = 200, res_body = Json v\<rparr>"

definition res_send :: "nat \<Rightarrow> jsstring \<Rightarrow> response" where
  "res_send n s = \<lparr>res_status = n, res_body = Text s\<rparr>"

text \<open>
  Reading one of the properties \<^verbatim>\<open>type\<close>, \<^verbatim>\<open>data\<close>, \<^verbatim>\<open>name\<close>, \<^verbatim>\<open>custom_id\<close> of a value:
  of \<^verbatim>\<open>undefined\<close> and of \<^verbatim>\<open>null\<close> it raises a TypeError, of an object it is the own
  property of that name or \<^verbatim>\<open>undefined\<close>, and of a number, a string, a boolean or an array
  it is \<^verbatim>\<open>undefined\<close>, since none of them has a property of one of these four names.
\<close>

fun get_property :: "json option \<Rightarrow> jsstring \<Rightarrow> js_error + json option" where
  "get_property None k = Inl TypeError"
| "get_property (Some JNull) k = Inl TypeError"
| "get_property (Some (JObject ps)) k = Inr (map_of ps k)"
| "get_property (Some v) k = Inr None"

definition RESPONSES :: "jsstring list" where
  "RESPONSES = [str ''Yeh, nah'', str ''Nah, yeh'']"

text \<open>
  \<^verbatim>\<open>RESPONSES[Math.floor(Math.random() * RESPONSES.length)]\<close>, given the number
  \<^verbatim>\<open>Math.random()\<close> returned; an index outside the array reads \<^verbatim>\<open>undefined\<close>.
\<close>

definition random_response :: "rat \<Rightarrow> jsstring option" where
  "random_response random =
     (let i = \<lfloor>random * of_nat (length RESPONSES)\<rfloor>
      in if 0 \<le> i \<and> nat i < length RESPONSES then Some (RESPONSES ! nat i) else None)"

text \<open>
  The object \<^verbatim>\<open>{type: 4, data: {content: c, flags: f}}\<close> as \<^verbatim>\<open>res.json\<close> writes it: a
  property whose value is \<^verbatim>\<open>undefined\<close> is left out.
\<close>

definition channel_message :: "jsstring option \<Rightarrow> rat \<Rightarrow> json" where
  "channel_message c f =
     JObject [(str ''type'', num 4),
              (str ''data'', JObject ((case c of Some s \<Rightarrow> [(str ''content'', JString s)] | None \<Rightarrow> [])
                                       @ [(str ''flags'', num f)]))]"

text \<open>The marker of line 124: U+1F3B1, two code units in a JavaScript string, and a space.\<close>

definition marker :: jsstring where
  "marker = [0xD83C, 0xDFB1, 0x20]"

definition marked :: "jsstring option \<Rightarrow> jsstring" where
  "marked response = marker @ (case response of Some s \<Rightarrow> s | None \<Rightarrow> str ''undefined'')"

text \<open>Lines 84 to 110 and 115 to 128; \<open>None\<close> when the block returns nothing and control goes on.\<close>

definition application_command :: "json option \<Rightarrow> rat \<Rightarrow> js_error + response option" where
  "application_command data random =
     (case get_property data (str ''name'') of
        Inl e \<Rightarrow> Inl e
      | Inr name \<Rightarrow>
          if name = Some (JString (str ''gork''))
            then Inr (Some (res_json (channel_message (random_response random) 0)))
          else if name = Some (JString (str ''gork-ephemeral''))
            then Inr (Some (res_json (channel_message (random_response random) 64)))
          else Inr None)"

definition message_component :: "json option \<Rightarrow> rat \<Rightarrow> js_error + response option" where
  "message_component data random =
     (case get_property data (str ''custom_id'') of
        Inl e \<Rightarrow> Inl e
      | Inr custom_id \<Rightarrow>
          if custom_id = Some (JString (str ''ask_gork''))
            then Inr (Some (res_json (channel_message (Some (marked (random_response random))) 64)))
          else Inr None)"

text \<open>Lines 78 to 131: the handler from the parsed interaction on.\<close>

definition dispatch :: "json \<Rightarrow> rat \<Rightarrow> js_error + response" where
  "dispatch interaction random =
     (case get_property (Some interaction) (str ''type'') of
        Inl e \<Rightarrow> Inl e
      | Inr type \<Rightarrow>
          if type = Some (num 1) then Inr (res_json (JObject [(str ''type'', num 1)]))
          else
            (case (if type = Some (num 2)
                   then (case get_property (Some interaction) (str ''data'') of
                           Inl e \<Rightarrow> Inl e
                         | Inr data \<Rightarrow> application_command data random)
                   else Inr None) of
               Inl e \<Rightarrow> Inl e
             | Inr (Some r) \<Rightarrow> Inr r
             | Inr None \<Rightarrow>
                 (case (if type = Some (num 3)
                        then (case get_property (Some interaction) (str ''data'') of
                                Inl e \<Rightarrow> Inl e
                              | Inr data \<Rightarrow> message_component data random)
                        else Inr None) of
                    Inl e \<Rightarrow> Inl e
                  | Inr (Some r) \<Rightarrow> Inr r
                  | Inr None \<Rightarrow> Inr (res_send 400 (str ''Unknown interaction type'')))))"

text \<open>Lines 66 to 132.\<close>

definition interactions :: "'key platform \<Rightarrow> request \<Rightarrow> js_error + response" where
  "interactions P req =
     (let body = request_text req in
      case verifyDiscordSignature P req body of
        Inl e \<Rightarrow> Inl e
      | Inr isValid \<Rightarrow>
          if \<not> isValid then Inr (res_send 401 (str ''Unauthorized''))
          else (case JSON_parse P body of
                  Inl e \<Rightarrow> Inl e
                | Inr interaction \<Rightarrow> dispatch interaction (Math_random P)))"

section \<open>Example platforms and requests\<close>

text \<open>
  The import of a raw Ed25519 key as the Web Cryptography standard defines it: key data
  that is not 32 bytes long is rejected with a DataError.
\<close>

definition import_raw_Ed25519 :: "byte list \<Rightarrow> js_error + byte list" where
  "import_raw_Ed25519 keyData = (if length keyData = 32 then Inr keyData else Inl DataError)"

text \<open>\<^verbatim>\<open>JSON.parse\<close> on the bodies of the examples; no other string is parsed there.\<close>

definition parse_examples :: "jsstring \<Rightarrow> js_error + json" where
  \<open>parse_examples s =
     (if s = str ''{"type":1}'' then Inr (JObject [(str ''type'', num 1)])
      else if s = str ''{"type":2}'' then Inr (JObject [(str ''type'', num 2)])
      else if s = str ''{"type":2,"data":5}''
        then Inr (JObject [(str ''type'', num 2), (str ''data'', num 5)])
      else if s = str ''{"type":3,"data":null}''
        then Inr (JObject [(str ''type'', num 3), (str ''data'', JNull)])
      else if s = str ''{"type":99}'' then Inr (JObject [(str ''type'', num 99)])
      else Inl SyntaxError)\<close>

text \<open>
  A platform with the configured key \<open>key\<close>, on which \<^verbatim>\<open>verify\<close> answers \<open>valid\<close> and
  \<^verbatim>\<open>Math.random()\<close> returns \<open>random\<close>.
\<close>

definition example_platform :: "jsstring option \<Rightarrow> bool \<Rightarrow> rat \<Rightarrow> (byte list) platform" where
  "example_platform key valid random =
     \<lparr>env_DISCORD_PUBLIC_KEY = key, importKey = import_raw_Ed25519,
      verify = (\<lambda>key signature message. Inr valid), JSON_parse = parse_examples,
      Math_random = random\<rparr>"

definition example_key :: jsstring where
  "example_key = str ''3d4017c3e843895a92b70aa74d1b7ebc9c982ccf2ec4968cc0cd55f12af4660c''"

definition example_signature :: jsstring where
  "example_signature = str (concat (replicate 4 ''92a009a9f0d4cab8720e820b5f642540''))"

text \<open>A request with both headers whose body is the UTF-8 encoding of an ASCII text.\<close>

definition example_request :: "string \<Rightarrow> request" where
  "example_request s =
     \<lparr>x_signature_ed25519 = Some example_signature,
      x_signature_timestamp = Some (str ''1700000000''),
      raw_body = map (\<lambda>c. of_nat (of_char c)) s\<rparr>"

text \<open>
  A request with both headers and the given bytes as its body, and a platform, configured
  with the example key, on which a signature verifies for the one message \<open>m\<close>.
\<close>

definition raw_request :: "byte list \<Rightarrow> request" where
  "raw_request bytes =
     \<lparr>x_signature_ed25519 = Some example_signature,
      x_signature_timestamp = Some (str ''1700000000''),
      raw_body = bytes\<rparr>"

definition message_platform :: "byte list \<Rightarrow> (byte list) platform" where
  "message_platform m =
     \<lparr>env_DISCORD_PUBLIC_KEY = Some example_key, importKey = import_raw_Ed25519,
      verify = (\<lambda>key signature message. Inr (message = m)), JSON_parse = parse_examples,
      Math_random = 0\<rparr>"

section \<open>The words of the specification\<close>

text \<open>
  The property of an object that the specification names; a value that is not an object has
  none. \<open>data_field v k\<close> is the specification's \<^verbatim>\<open>data.k\<close>.
\<close>

definition field :: "json \<Rightarrow> jsstring \<Rightarrow> json option" where
  "field v k = (case v of JObject ps \<Rightarrow> map_of ps k | _ \<Rightarrow> None)"

definition data_field :: "json \<Rightarrow> jsstring \<Rightarrow> json option" where
  "data_field v k = (case field v (str ''data'') of Some d \<Rightarrow> field d k | None \<Rightarrow> None)"

text \<open>
  No rule of the dispatcher matches: the type is none of 1, 2, 3, or it is 2 and the name
  is neither of the two commands, or it is 3 and the custom id is not that of the button.
\<close>

definition no_rule_matches :: "json \<Rightarrow> bool" where
  "no_rule_matches v \<longleftrightarrow>
     (field v (str ''type'') \<noteq> Some (num 1) \<and> field v (str ''type'') \<noteq> Some (num 2)
        \<and> field v (str ''type'') \<noteq> Some (num 3))
     \<or> (field v (str ''type'') = Some (num 2)
          \<and> data_field v (str ''name'') \<noteq> Some (JString (str ''gork''))
          \<and> data_field v (str ''name'') \<noteq> Some (JString (str ''gork-ephemeral'')))
     \<or> (field v (str ''type'') = Some (num 3)
          \<and> data_field v (str ''custom_id'') \<noteq> Some (JString (str ''ask_gork'')))"

definition absent_or_empty :: "jsstring option \<Rightarrow> bool" where
  "absent_or_empty v \<longleftrightarrow> v = None \<or> v = Some []"

definition unauthorized :: response where
  "unauthorized = \<lparr>res_status = 401, res_body = Text (str ''Unauthorized'')\<rparr>"

definition unknown_interaction :: response where
  "unknown_interaction = \<lparr>res_status = 400, res_body = Text (str ''Unknown interaction type'')\<rparr>"

text \<open>
  The hexadecimal characters and their values, and the two cases of an ASCII letter.
\<close>

definition hex_table :: "(code_unit \<times> nat) list" where
  "hex_table = zip (str ''0123456789abcdefABCDEF'')
                   [0, 1, 2, 3, 4, 5, 6, 7, 8, 9, 10, 11, 12, 13, 14, 15, 10, 11, 12, 13, 14, 15]"

definition hex_character :: "code_unit \<Rightarrow> bool" where
  "hex_character c \<longleftrightarrow> c \<in> set (str ''0123456789abcdefABCDEF'')"

definition hex_value :: "code_unit \<Rightarrow> nat" where
  "hex_value c = (case map_of hex_table c of Some v \<Rightarrow> v | None \<Rightarrow> 0)"

definition ascii_upper :: "code_unit \<Rightarrow> code_unit" where
  "ascii_upper c = (if 0x61 \<le> unat c \<and> unat c \<le> 0x7A then c - 0x20 else c)"

definition ascii_lower :: "code_unit \<Rightarrow> code_unit" where
  "ascii_lower c = (if 0x41 \<le> unat c \<and> unat c \<le> 0x5A then c + 0x20 else c)"

text \<open>
  A Unicode scalar value: a code point that is not a surrogate. A sequence of bytes is
  well-formed UTF-8 when it is the encoding of a sequence of scalar values.
\<close>

definition scalar_value :: "nat \<Rightarrow> bool" where
  "scalar_value cp \<longleftrightarrow> cp < 0xD800 \<or> (0xE000 \<le> cp \<and> cp < 0x110000)"

section \<open>The dispatcher\<close>

lemma str_length: "length (str s) = length s"
  by (simp add: str_def)

lemma gork_names_differ: "str ''gork'' \<noteq> str ''gork-ephemeral''"
proof
  assume "str ''gork'' = str ''gork-ephemeral''"
  then have "length (str ''gork'') = length (str ''gork-ephemeral'')" by simp
  then show False by (simp add: str_length)
qed

lemma random_index:
  assumes "0 \<le> random" and "random < 1"
  shows "\<lfloor>random * 2\<rfloor> = 0 \<or> \<lfloor>random * 2\<rfloor> = 1"
proof -
  have "0 \<le> \<lfloor>random * 2\<rfloor>" using assms by simp
  moreover have "\<lfloor>random * 2\<rfloor> < 2" using assms by (simp add: floor_less_iff)
  ultimately show ?thesis by linarith
qed

lemma random_response_pool:
  assumes "0 \<le> random" and "random < 1"
  shows "random_response random = Some (str ''Yeh, nah'')
         \<or> random_response random = Some (str ''Nah, yeh'')"
  using random_index [OF assms] assms by (auto simp: random_response_def RESPONSES_def)

text \<open>
  C9. A payload whose \<^verbatim>\<open>type\<close> is 1 is answered with status 200 and the JSON object
  \<^verbatim>\<open>{type: 1}\<close>, whatever else the payload holds; that object has the one property
  \<^verbatim>\<open>type\<close>, so reading its \<^verbatim>\<open>data\<close> gives \<^verbatim>\<open>undefined\<close>.
\<close>

theorem dispatch_ping:
  assumes "map_of ps (str ''type'') = Some (num 1)"
  shows "dispatch (JObject ps) random =
           Inr \<lparr>res_status = 200, res_body = Json (JObject [(str ''type'', num 1)])\<rparr>
         \<and> get_property (Some (JObject [(str ''type'', num 1)])) (str ''data'') = Inr None"
  using assms by (simp add: dispatch_def res_json_def str_def)

theorem dispatch_ping_witness:
  "map_of [(str ''type'', num 1)] (str ''type'') = Some (num 1)
   \<and> dispatch (JObject [(str ''type'', num 1)]) 0 =
       Inr \<lparr>res_status = 200, res_body = Json (JObject [(str ''type'', num 1)])\<rparr>"
  using dispatch_ping [of "[(str ''type'', num 1)]" 0] by simp

text \<open>
  C6. A payload of type 2 whose \<^verbatim>\<open>data.name\<close> is \<^verbatim>\<open>"gork"\<close> is answered with
  \<^verbatim>\<open>{type: 4, data: {content, flags: 0}}\<close>, the content one of the two strings of the pool;
  with the name \<^verbatim>\<open>"gork-ephemeral"\<close> the answer has the same shape and the flags 64.
  \<^verbatim>\<open>Math.random()\<close> returns a number from 0 up to, not including, 1.
\<close>

theorem dispatch_gork:
  assumes "map_of ps (str ''type'') = Some (num 2)"
    and "map_of ps (str ''data'') = Some (JObject ds)"
    and "map_of ds (str ''name'') = Some (JString name)"
    and "0 \<le> random" and "random < 1"
  shows "(name = str ''gork'' \<longrightarrow>
            (\<exists>c. (c = str ''Yeh, nah'' \<or> c = str ''Nah, yeh'') \<and>
               dispatch (JObject ps) random =
                 Inr \<lparr>res_status = 200,
                      res_body = Json (JObject [(str ''type'', num 4),
                        (str ''data'', JObject [(str ''content'', JString c),
                                                (str ''flags'', num 0)])])\<rparr>))
       \<and> (name = str ''gork-ephemeral'' \<longrightarrow>
            (\<exists>c. (c = str ''Yeh, nah'' \<or> c = str ''Nah, yeh'') \<and>
               dispatch (JObject ps) random =
                 Inr \<lparr>res_status = 200,
                      res_body = Json (JObject [(str ''type'', num 4),
                        (str ''data'', JObject [(str ''content'', JString c),
                                                (str ''flags'', num 64)])])\<rparr>))"
  using assms(1-3) random_response_pool [OF assms(4,5)] gork_names_differ
  by (auto simp: dispatch_def application_command_def res_json_def channel_message_def)

theorem dispatch_gork_witness:
  "dispatch (JObject [(str ''type'', num 2),
                      (str ''data'', JObject [(str ''name'', JString (str ''gork''))])]) (1/2) =
     Inr \<lparr>res_status = 200,
          res_body = Json (JObject [(str ''type'', num 4),
            (str ''data'', JObject [(str ''content'', JString (str ''Nah, yeh'')),
                                    (str ''flags'', num 0)])])\<rparr>
   \<and> dispatch (JObject [(str ''type'', num 2),
                        (str ''data'', JObject [(str ''name'', JString (str ''gork-ephemeral''))])]) (1/4) =
     Inr \<lparr>res_status = 200,
          res_body = Json (JObject [(str ''type'', num 4),
            (str ''data'', JObject [(str ''content'', JString (str ''Yeh, nah'')),
                                    (str ''flags'', num 64)])])\<rparr>"
  using dispatch_gork [of "[(str ''type'', num 2),
            (str ''data'', JObject [(str ''name'', JString (str ''gork''))])]"
           "[(str ''name'', JString (str ''gork''))]" "str ''gork''" "1/2"]
        dispatch_gork [of "[(str ''type'', num 2),
            (str ''data'', JObject [(str ''name'', JString (str ''gork-ephemeral''))])]"
           "[(str ''name'', JString (str ''gork-ephemeral''))]" "str ''gork-ephemeral''" "1/4"]
  by (simp add: str_def dispatch_def application_command_def res_json_def channel_message_def
      random_response_def RESPONSES_def Let_def)

text \<open>
  C7. A payload of type 3 whose \<^verbatim>\<open>data.custom_id\<close> is \<^verbatim>\<open>"ask_gork"\<close> is answered with
  \<^verbatim>\<open>{type: 4, data: {content, flags: 64}}\<close>, the content being the marker (U+1F3B1 and a
  space) followed by one of the two strings of the pool.
\<close>

theorem dispatch_ask_gork:
  assumes "map_of ps (str ''type'') = Some (num 3)"
    and "map_of ps (str ''data'') = Some (JObject ds)"
    and "map_of ds (str ''custom_id'') = Some (JString (str ''ask_gork''))"
    and "0 \<le> random" and "random < 1"
  shows "\<exists>c. (c = str ''Yeh, nah'' \<or> c = str ''Nah, yeh'') \<and>
           dispatch (JObject ps) random =
             Inr \<lparr>res_status = 200,
                  res_body = Json (JObject [(str ''type'', num 4),
                    (str ''data'', JObject [(str ''content'', JString ([0xD83C, 0xDFB1, 0x20] @ c)),
                                            (str ''flags'', num 64)])])\<rparr>"
  using assms(1-3) random_response_pool [OF assms(4,5)]
  by (auto simp: dispatch_def message_component_def res_json_def channel_message_def
      marked_def marker_def)

theorem dispatch_ask_gork_witness:
  "dispatch (JObject [(str ''type'', num 3),
                      (str ''data'', JObject [(str ''custom_id'', JString (str ''ask_gork''))])]) (1/2) =
     Inr \<lparr>res_status = 200,
          res_body = Json (JObject [(str ''type'', num 4),
            (str ''data'', JObject [(str ''content'', JString ([0xD83C, 0xDFB1, 0x20] @ str ''Nah, yeh'')),
                                    (str ''flags'', num 64)])])\<rparr>"
  using dispatch_ask_gork [of "[(str ''type'', num 3),
            (str ''data'', JObject [(str ''custom_id'', JString (str ''ask_gork''))])]"
           "[(str ''custom_id'', JString (str ''ask_gork''))]" "1/2"]
  by (simp add: str_def dispatch_def message_component_def res_json_def channel_message_def
      random_response_def RESPONSES_def marked_def marker_def Let_def)

section \<open>The endpoint\<close>

lemma get_property_field: "v \<noteq> JNull \<Longrightarrow> get_property (Some v) k = Inr (field v k)"
  by (cases v) (simp_all add: field_def)

lemma interactions_verified:
  assumes "verifyDiscordSignature P req (request_text req) = Inr True"
    and "JSON_parse P (request_text req) = Inr interaction"
  shows "interactions P req = dispatch interaction (Math_random P)"
  using assms by (simp add: interactions_def)

lemma interactions_rejected:
  assumes "verifyDiscordSignature P req (request_text req) = Inr False"
  shows "interactions P req = Inr unauthorized"
  using assms by (simp add: interactions_def unauthorized_def res_send_def)

lemma interactions_raised:
  assumes "verifyDiscordSignature P req (request_text req) = Inl e"
  shows "interactions P req = Inl e"
  using assms by (simp add: interactions_def)

lemma verify_absent:
  assumes "absent_or_empty (x_signature_ed25519 req) \<or> absent_or_empty (x_signature_timestamp req)
           \<or> absent_or_empty (env_DISCORD_PUBLIC_KEY P)"
  shows "verifyDiscordSignature P req body = Inr False"
  using assms
  by (auto simp: verifyDiscordSignature_def absent_or_empty_def split: option.splits)

lemma verify_present:
  assumes "x_signature_ed25519 req = Some signature" and "signature \<noteq> []"
    and "x_signature_timestamp req = Some timestamp" and "timestamp \<noteq> []"
    and "env_DISCORD_PUBLIC_KEY P = Some publicKey" and "publicKey \<noteq> []"
  shows "verifyDiscordSignature P req body =
           (case importKey P (hexToBytes publicKey) of
              Inl e \<Rightarrow> Inl e
            | Inr key \<Rightarrow> verify P key (hexToBytes signature) (signed_message timestamp body))"
  using assms by (simp add: verifyDiscordSignature_def)

lemma hexToBytes_loop_length: "length (hexToBytes_loop hex i bytes) = length bytes"
proof (induction hex i bytes rule: hexToBytes_loop.induct)
  case (1 hex i bytes)
  show ?case
  proof (cases "i < length hex")
    case True
    then show ?thesis
      using "1.IH" by (subst hexToBytes_loop.simps) (simp add: set_element_def)
  next
    case False
    then show ?thesis by (subst hexToBytes_loop.simps) simp
  qed
qed

lemma hexToBytes_length: "length (hexToBytes hex) = length hex div 2"
  by (simp add: hexToBytes_def hexToBytes_loop_length)

lemma utf8_decoder_ascii:
  "\<forall>b\<in>set bs. b \<le> 0x7F \<Longrightarrow> utf8_decoder utf8_initial bs = bs"
  by (induction bs) (simp_all add: utf8_decoder.simps utf8_initial_def)

lemma example_text:
  assumes "\<forall>c\<in>set s. (of_char c :: nat) \<le> 0x7F"
  shows "request_text (example_request s) = str s"
proof -
  let ?bytes = "map (\<lambda>c. of_nat (of_char c)) s :: byte list"
  have u: "unat (of_nat (of_char c) :: byte) = of_char c" if "c \<in> set s" for c
    using assms that by (simp add: unat_of_nat)
  have m: "map unat ?bytes = map of_char s"
    using u by simp
  have "take 3 ?bytes \<noteq> [0xEF, 0xBB, 0xBF]"
  proof (cases s)
    case Nil
    then show ?thesis by simp
  next
    case (Cons c cs)
    then have "unat (of_nat (of_char c) :: byte) \<le> 0x7F" using assms u by simp
    then have "(of_nat (of_char c) :: byte) \<noteq> 0xEF" by auto
    then show ?thesis using Cons by simp
  qed
  then have "utf8_decode ?bytes = utf8_decoder utf8_initial (map unat ?bytes)"
    by (simp add: utf8_decode_def)
  also have "\<dots> = utf8_decoder utf8_initial (map of_char s)"
    by (simp only: m)
  also have "\<dots> = map of_char s"
    using assms by (intro utf8_decoder_ascii) simp
  finally have d: "utf8_decode ?bytes = map of_char s" .
  have "concat (map utf16_encode_cp (map of_char s)) = map of_char s"
    using assms by (induction s) (simp_all add: utf16_encode_cp_def)
  then show ?thesis
    by (simp add: request_text_def example_request_def d utf16_encode_def str_def)
qed

lemma example_key_length: "length (hexToBytes example_key) = 32"
  by (simp add: hexToBytes_length example_key_def str_def)

lemma example_verified:
  "verifyDiscordSignature (example_platform (Some example_key) valid r) (example_request s) body
     = Inr valid"
proof -
  have "example_key \<noteq> []" "example_signature \<noteq> []" "str ''1700000000'' \<noteq> []"
    by (simp_all add: example_key_def example_signature_def str_def)
  then show ?thesis using example_key_length
    by (simp add: verifyDiscordSignature_def example_platform_def example_request_def
        import_raw_Ed25519_def)
qed

lemma example_rejected_key:
  "verifyDiscordSignature (example_platform (Some (str ''zz'')) valid r) (example_request s) body
     = Inl DataError"
proof -
  have "str ''zz'' \<noteq> []" "example_signature \<noteq> []" "str ''1700000000'' \<noteq> []"
    by (simp_all add: example_signature_def str_def)
  moreover have "length (hexToBytes (str ''zz'')) = 1"
    by (simp add: hexToBytes_length str_def)
  ultimately show ?thesis
    by (simp add: verifyDiscordSignature_def example_platform_def example_request_def
        import_raw_Ed25519_def)
qed

lemma dispatch_unmatched:
  assumes "no_rule_matches v" and "v \<noteq> JNull"
    and "field v (str ''type'') = Some (num 2) \<or> field v (str ''type'') = Some (num 3)
         \<longrightarrow> field v (str ''data'') \<noteq> None \<and> field v (str ''data'') \<noteq> Some JNull"
  shows "dispatch v random = Inr unknown_interaction"
proof -
  have t: "get_property (Some v) (str ''type'') = Inr (field v (str ''type''))"
    using assms(2) by (rule get_property_field)
  have d: "get_property (Some v) (str ''data'') = Inr (field v (str ''data''))"
    using assms(2) by (rule get_property_field)
  consider (other) "field v (str ''type'') \<noteq> Some (num 1)" "field v (str ''type'') \<noteq> Some (num 2)"
      "field v (str ''type'') \<noteq> Some (num 3)"
    | (command) "field v (str ''type'') = Some (num 2)"
    | (component) "field v (str ''type'') = Some (num 3)"
    using assms(1) by (auto simp: no_rule_matches_def)
  then show ?thesis
  proof cases
    case other
    then show ?thesis
      by (simp add: dispatch_def t unknown_interaction_def res_send_def)
  next
    case command
    then obtain x where x: "field v (str ''data'') = Some x" "x \<noteq> JNull"
      using assms(3) by auto
    have "get_property (Some x) (str ''name'') = Inr (field x (str ''name''))"
      using x(2) by (rule get_property_field)
    moreover have "field x (str ''name'') \<noteq> Some (JString (str ''gork''))"
      "field x (str ''name'') \<noteq> Some (JString (str ''gork-ephemeral''))"
      using assms(1) command x(1) by (auto simp: no_rule_matches_def data_field_def)
    ultimately show ?thesis
      using command x(1)
      by (simp add: dispatch_def t d application_command_def unknown_interaction_def res_send_def)
  next
    case component
    then obtain x where x: "field v (str ''data'') = Some x" "x \<noteq> JNull"
      using assms(3) by auto
    have "get_property (Some x) (str ''custom_id'') = Inr (field x (str ''custom_id''))"
      using x(2) by (rule get_property_field)
    moreover have "field x (str ''custom_id'') \<noteq> Some (JString (str ''ask_gork''))"
      using assms(1) component x(1) by (auto simp: no_rule_matches_def data_field_def)
    ultimately show ?thesis
      using component x(1)
      by (simp add: dispatch_def t d message_component_def unknown_interaction_def res_send_def)
  qed
qed

lemma dispatch_no_data:
  assumes "field v (str ''type'') = Some (num 2) \<or> field v (str ''type'') = Some (num 3)"
    and "field v (str ''data'') = None \<or> field v (str ''data'') = Some JNull"
  shows "dispatch v random = Inl TypeError"
proof -
  have "v \<noteq> JNull" using assms(1) by (auto simp: field_def)
  then have p: "get_property (Some v) k = Inr (field v k)" for k
    by (rule get_property_field)
  show ?thesis
    using assms by (auto simp: dispatch_def p application_command_def message_component_def)
qed

text \<open>
  C3, as the code has it. A verified payload that no rule matches is answered with status 400
  and the plain text \<^verbatim>\<open>Unknown interaction type\<close>, provided that the payload is not
  \<^verbatim>\<open>null\<close> and that, when its type is 2 or 3, its \<^verbatim>\<open>data\<close> is there and is not \<^verbatim>\<open>null\<close>.
\<close>

theorem unrecognized_interaction:
  assumes "verifyDiscordSignature P req (request_text req) = Inr True"
    and "JSON_parse P (request_text req) = Inr interaction"
    and "no_rule_matches interaction"
    and "interaction \<noteq> JNull"
    and "field interaction (str ''type'') = Some (num 2) \<or> field interaction (str ''type'') = Some (num 3)
         \<longrightarrow> field interaction (str ''data'') \<noteq> None \<and> field interaction (str ''data'') \<noteq> Some JNull"
  shows "interactions P req =
           Inr \<lparr>res_status = 400, res_body = Text (str ''Unknown interaction type'')\<rparr>"
  using interactions_verified [OF assms(1,2)] dispatch_unmatched [OF assms(3,4,5)]
  by (simp add: unknown_interaction_def)

theorem unrecognized_interaction_witness:
  "interactions (example_platform (Some example_key) True 0) (example_request ''{\"type\":99}'') =
     Inr \<lparr>res_status = 400, res_body = Text (str ''Unknown interaction type'')\<rparr>
   \<and> interactions (example_platform (Some example_key) True 0)
        (example_request ''{\"type\":2,\"data\":5}'') =
     Inr \<lparr>res_status = 400, res_body = Text (str ''Unknown interaction type'')\<rparr>"
proof -
  let ?P = "example_platform (Some example_key) True 0"
  have a: "JSON_parse ?P (request_text (example_request ''{\"type\":99}''))
           = Inr (JObject [(str ''type'', num 99)])"
    by (simp add: example_text) (simp add: example_platform_def parse_examples_def str_def)
  have b: "JSON_parse ?P (request_text (example_request ''{\"type\":2,\"data\":5}''))
           = Inr (JObject [(str ''type'', num 2), (str ''data'', num 5)])"
    by (simp add: example_text) (simp add: example_platform_def parse_examples_def str_def)
  have c: "no_rule_matches (JObject [(str ''type'', num 99)])"
    by (simp add: no_rule_matches_def field_def)
  have d: "no_rule_matches (JObject [(str ''type'', num 2), (str ''data'', num 5)])"
    by (simp add: no_rule_matches_def field_def data_field_def str_def)
  show ?thesis
    using unrecognized_interaction [OF example_verified a c]
      unrecognized_interaction [OF example_verified b d]
    by (simp add: field_def str_def)
qed

text \<open>
  C3 as it is written fails: the payload \<^verbatim>\<open>{"type":2}\<close> is verified and matched by no rule,
  and the handler raises a TypeError at \<^verbatim>\<open>data.name\<close>.
\<close>

theorem unrecognized_interaction_counterexample:
  "verifyDiscordSignature (example_platform (Some example_key) True 0)
      (example_request ''{\"type\":2}'') (request_text (example_request ''{\"type\":2}'')) = Inr True
   \<and> JSON_parse (example_platform (Some example_key) True 0)
        (request_text (example_request ''{\"type\":2}'')) = Inr (JObject [(str ''type'', num 2)])
   \<and> no_rule_matches (JObject [(str ''type'', num 2)])
   \<and> interactions (example_platform (Some example_key) True 0) (example_request ''{\"type\":2}'')
       = Inl TypeError"
proof -
  let ?P = "example_platform (Some example_key) True 0"
  let ?v = "JObject [(str ''type'', num 2)]"
  have a: "JSON_parse ?P (request_text (example_request ''{\"type\":2}'')) = Inr ?v"
    by (simp add: example_text) (simp add: example_platform_def parse_examples_def str_def)
  have c: "no_rule_matches ?v"
    by (simp add: no_rule_matches_def field_def data_field_def str_def)
  have "dispatch ?v 0 = Inl TypeError"
    by (rule dispatch_no_data) (simp_all add: field_def str_def)
  then have "interactions ?P (example_request ''{\"type\":2}'') = Inl TypeError"
    using interactions_verified [OF example_verified a] by (simp add: example_platform_def)
  then show ?thesis using a c example_verified by simp
qed

text \<open>
  C10, as the code has it. For a verified payload of type 2 or 3: when \<^verbatim>\<open>data\<close> is absent or
  \<^verbatim>\<open>null\<close>, the handler raises a TypeError at \<^verbatim>\<open>data.name\<close> or \<^verbatim>\<open>data.custom_id\<close>; when
  \<^verbatim>\<open>data\<close> is a number, a string, a boolean or an array, the read gives \<^verbatim>\<open>undefined\<close>,
  nothing is raised and the answer is the 400 of an unknown interaction.
\<close>

theorem data_missing_or_not_an_object:
  assumes "verifyDiscordSignature P req (request_text req) = Inr True"
    and "JSON_parse P (request_text req) = Inr interaction"
    and "field interaction (str ''type'') = Some (num 2) \<or> field interaction (str ''type'') = Some (num 3)"
  shows "(field interaction (str ''data'') = None \<or> field interaction (str ''data'') = Some JNull
            \<longrightarrow> interactions P req = Inl TypeError)
       \<and> (\<forall>d. field interaction (str ''data'') = Some d \<and> d \<noteq> JNull \<and> (\<forall>qs. d \<noteq> JObject qs)
            \<longrightarrow> interactions P req =
                  Inr \<lparr>res_status = 400, res_body = Text (str ''Unknown interaction type'')\<rparr>)"
proof (intro conjI impI allI)
  assume "field interaction (str ''data'') = None \<or> field interaction (str ''data'') = Some JNull"
  then show "interactions P req = Inl TypeError"
    using interactions_verified [OF assms(1,2)] dispatch_no_data [OF assms(3)] by simp
next
  fix d
  assume d: "field interaction (str ''data'') = Some d \<and> d \<noteq> JNull \<and> (\<forall>qs. d \<noteq> JObject qs)"
  then have f: "field d k = None" for k
    by (cases d) (simp_all add: field_def)
  have n: "interaction \<noteq> JNull" using assms(3) by (auto simp: field_def)
  have "no_rule_matches interaction"
    using assms(3) d by (auto simp: no_rule_matches_def data_field_def f)
  then have "dispatch interaction (Math_random P) = Inr unknown_interaction"
    using n d by (intro dispatch_unmatched) simp_all
  then show "interactions P req =
      Inr \<lparr>res_status = 400, res_body = Text (str ''Unknown interaction type'')\<rparr>"
    using interactions_verified [OF assms(1,2)] by (simp add: unknown_interaction_def)
qed

theorem data_missing_or_not_an_object_witness:
  "interactions (example_platform (Some example_key) True 0)
      (example_request ''{\"type\":3,\"data\":null}'') = Inl TypeError
   \<and> interactions (example_platform (Some example_key) True 0)
        (example_request ''{\"type\":2,\"data\":5}'') =
       Inr \<lparr>res_status = 400, res_body = Text (str ''Unknown interaction type'')\<rparr>"
proof -
  let ?P = "example_platform (Some example_key) True 0"
  have a: "JSON_parse ?P (request_text (example_request ''{\"type\":3,\"data\":null}''))
           = Inr (JObject [(str ''type'', num 3), (str ''data'', JNull)])"
    by (simp add: example_text) (simp add: example_platform_def parse_examples_def str_def)
  have b: "JSON_parse ?P (request_text (example_request ''{\"type\":2,\"data\":5}''))
           = Inr (JObject [(str ''type'', num 2), (str ''data'', num 5)])"
    by (simp add: example_text) (simp add: example_platform_def parse_examples_def str_def)
  show ?thesis
    using data_missing_or_not_an_object [OF example_verified a]
      data_missing_or_not_an_object [OF example_verified b]
    by (simp add: field_def str_def)
qed

text \<open>
  C10 as it is written fails where \<^verbatim>\<open>data\<close> is not an object and not \<^verbatim>\<open>null\<close>: the verified
  payload \<^verbatim>\<open>{"type":2,"data":5}\<close> has no data object, and the handler raises nothing and
  answers 400.
\<close>

theorem data_not_an_object_counterexample:
  "verifyDiscordSignature (example_platform (Some example_key) True 0)
      (example_request ''{\"type\":2,\"data\":5}'')
      (request_text (example_request ''{\"type\":2,\"data\":5}'')) = Inr True
   \<and> JSON_parse (example_platform (Some example_key) True 0)
        (request_text (example_request ''{\"type\":2,\"data\":5}''))
       = Inr (JObject [(str ''type'', num 2), (str ''data'', num 5)])
   \<and> field (JObject [(str ''type'', num 2), (str ''data'', num 5)]) (str ''type'') = Some (num 2)
   \<and> field (JObject [(str ''type'', num 2), (str ''data'', num 5)]) (str ''data'') = Some (num 5)
   \<and> interactions (example_platform (Some example_key) True 0)
        (example_request ''{\"type\":2,\"data\":5}'') = Inr unknown_interaction"
proof -
  let ?P = "example_platform (Some example_key) True 0"
  let ?v = "JObject [(str ''type'', num 2), (str ''data'', num 5)]"
  have a: "JSON_parse ?P (request_text (example_request ''{\"type\":2,\"data\":5}'')) = Inr ?v"
    by (simp add: example_text) (simp add: example_platform_def parse_examples_def str_def)
  have "dispatch ?v 0 = Inr unknown_interaction"
    by (simp add: dispatch_def application_command_def unknown_interaction_def res_send_def str_def)
  then have "interactions ?P (example_request ''{\"type\":2,\"data\":5}'') = Inr unknown_interaction"
    using interactions_verified [OF example_verified a] by (simp add: example_platform_def)
  then show ?thesis using a example_verified by (simp add: field_def str_def)
qed

section \<open>Authentication\<close>

text \<open>
  C4. When the signature header, the timestamp header or the configured public key is
  missing (or is the empty string), \<^verbatim>\<open>verifyDiscordSignature\<close> returns \<^verbatim>\<open>false\<close> and the
  endpoint answers with status 401.
\<close>

theorem missing_credentials:
  assumes "absent_or_empty (x_signature_ed25519 req) \<or> absent_or_empty (x_signature_timestamp req)
           \<or> absent_or_empty (env_DISCORD_PUBLIC_KEY P)"
  shows "verifyDiscordSignature P req body = Inr False
         \<and> interactions P req = Inr \<lparr>res_status = 401, res_body = Text (str ''Unauthorized'')\<rparr>"
  using verify_absent [OF assms] interactions_rejected [of P req]
  by (simp add: unauthorized_def)

theorem missing_credentials_witness:
  "interactions (example_platform (Some example_key) True 0)
      ((example_request ''{\"type\":1}'')\<lparr>x_signature_ed25519 := None\<rparr>)
     = Inr \<lparr>res_status = 401, res_body = Text (str ''Unauthorized'')\<rparr>
   \<and> interactions (example_platform (Some example_key) True 0)
      ((example_request ''{\"type\":1}'')\<lparr>x_signature_timestamp := None\<rparr>)
     = Inr \<lparr>res_status = 401, res_body = Text (str ''Unauthorized'')\<rparr>
   \<and> interactions (example_platform None True 0) (example_request ''{\"type\":1}'')
     = Inr \<lparr>res_status = 401, res_body = Text (str ''Unauthorized'')\<rparr>"
  using missing_credentials [of "(example_request ''{\"type\":1}'')\<lparr>x_signature_ed25519 := None\<rparr>"
          "example_platform (Some example_key) True 0"]
    missing_credentials [of "(example_request ''{\"type\":1}'')\<lparr>x_signature_timestamp := None\<rparr>"
          "example_platform (Some example_key) True 0"]
    missing_credentials [of "example_request ''{\"type\":1}''" "example_platform None True 0"]
  by (simp add: absent_or_empty_def example_platform_def)




text \<open>
  C5, as the code has it. Every two requests for which \<^verbatim>\<open>verifyDiscordSignature\<close> returns
  \<^verbatim>\<open>false\<close>, for whatever reason, get the same response: status 401 with the body
  \<^verbatim>\<open>Unauthorized\<close>.
\<close>

theorem authentication_failure_uniform:
  assumes "verifyDiscordSignature P req (request_text req) = Inr False"
    and "verifyDiscordSignature P' req' (request_text req') = Inr False"
  shows "interactions P req = interactions P' req'
         \<and> interactions P req = Inr \<lparr>res_status = 401, res_body = Text (str ''Unauthorized'')\<rparr>"
  using interactions_rejected [OF assms(1)] interactions_rejected [OF assms(2)]
  by (simp add: unauthorized_def)

theorem authentication_failure_uniform_witness:
  "interactions (example_platform (Some example_key) True 0)
      ((example_request ''{\"type\":1}'')\<lparr>x_signature_ed25519 := None\<rparr>)
   = interactions (example_platform (Some example_key) False 0) (example_request ''{\"type\":2}'')
   \<and> interactions (example_platform (Some example_key) True 0)
      ((example_request ''{\"type\":1}'')\<lparr>x_signature_ed25519 := None\<rparr>)
     = Inr \<lparr>res_status = 401, res_body = Text (str ''Unauthorized'')\<rparr>"
proof -
  have "absent_or_empty (x_signature_ed25519 ((example_request ''{\"type\":1}'')\<lparr>x_signature_ed25519 := None\<rparr>))"
    by (simp add: absent_or_empty_def)
  then have a: "verifyDiscordSignature (example_platform (Some example_key) True 0)
      ((example_request ''{\"type\":1}'')\<lparr>x_signature_ed25519 := None\<rparr>) body = Inr False" for body
    by (intro verify_absent) simp
  show ?thesis
    by (rule authentication_failure_uniform [OF a example_verified])
qed

text \<open>
  C5 as it is written fails: with the configured key \<^verbatim>\<open>zz\<close> the request is not
  authenticated, and the endpoint raises the DataError of \<^verbatim>\<open>importKey\<close> where the claim
  has the status 401.
\<close>

theorem authentication_failure_counterexample:
  "verifyDiscordSignature (example_platform (Some (str ''zz'')) False 0)
     (example_request ''{\"type\":1}'') (request_text (example_request ''{\"type\":1}''))
     \<noteq> Inr True
   \<and> interactions (example_platform (Some (str ''zz'')) False 0) (example_request ''{\"type\":1}'')
     = Inl DataError"
  using interactions_raised [OF example_rejected_key, of False 0 "''{\"type\":1}''"]
  by (simp add: example_rejected_key)

section \<open>Hexadecimal decoding\<close>

lemma hex_character_cases:
  assumes "hex_character c"
  shows "c = 0x30 \<or> c = 0x31 \<or> c = 0x32 \<or> c = 0x33 \<or> c = 0x34 \<or> c = 0x35 \<or> c = 0x36
         \<or> c = 0x37 \<or> c = 0x38 \<or> c = 0x39 \<or> c = 0x61 \<or> c = 0x62 \<or> c = 0x63 \<or> c = 0x64
         \<or> c = 0x65 \<or> c = 0x66 \<or> c = 0x41 \<or> c = 0x42 \<or> c = 0x43 \<or> c = 0x44 \<or> c = 0x45
         \<or> c = 0x46"
  using assms by (simp add: hex_character_def str_def)

lemma digit_value_hex_character:
  assumes "hex_character c"
  shows "digit_value c = Some (hex_value c)"
  using hex_character_cases [OF assms]
  by (elim disjE) (simp_all add: digit_value_def hex_value_def hex_table_def str_def)

lemma hex_value_less:
  assumes "hex_character c"
  shows "hex_value c < 16"
  using hex_character_cases [OF assms]
  by (elim disjE) (simp_all add: hex_value_def hex_table_def str_def)

lemma hex_character_plain:
  assumes "hex_character c"
  shows "\<not> is_white_space c \<and> c \<noteq> 0x2D \<and> c \<noteq> 0x2B \<and> c \<noteq> 0x78 \<and> c \<noteq> 0x58"
  using hex_character_cases [OF assms]
  by (elim disjE) (simp_all add: is_white_space_def)

lemma parseInt16_pair:
  assumes "hex_character a" and "hex_character b"
  shows "parseInt16 [a, b] = Some (int (16 * hex_value a + hex_value b))"
  using hex_character_plain [OF assms(1)] hex_character_plain [OF assms(2)]
    digit_value_hex_character [OF assms(1)] digit_value_hex_character [OF assms(2)]
  by (simp add: parseInt16_def str_def is_hex_digit_def radix16_value_def)

lemma hexToBytes_loop_nth:
  assumes "even i" and "k < length bytes"
  shows "hexToBytes_loop hex i bytes ! k =
           (if i div 2 \<le> k \<and> 2 * k < length hex
            then ToUint8 (parseInt16 (substr hex (2 * k) 2)) else bytes ! k)"
  using assms
proof (induction hex i bytes rule: hexToBytes_loop.induct)
  case (1 hex i bytes)
  from \<open>even i\<close> have i: "2 * (i div 2) = i" by simp
  show ?case
  proof (cases "i < length hex")
    case True
    let ?bytes = "set_element bytes (i div 2) (parseInt16 (substr hex i 2))"
    have len: "length ?bytes = length bytes" by (simp add: set_element_def)
    have "hexToBytes_loop hex i bytes ! k = hexToBytes_loop hex (i + 2) ?bytes ! k"
      using True by (subst hexToBytes_loop.simps) simp
    also have "\<dots> = (if (i + 2) div 2 \<le> k \<and> 2 * k < length hex
            then ToUint8 (parseInt16 (substr hex (2 * k) 2)) else ?bytes ! k)"
      using "1.IH" [OF True] "1.prems" len by simp
    also have "\<dots> = (if i div 2 \<le> k \<and> 2 * k < length hex
            then ToUint8 (parseInt16 (substr hex (2 * k) 2)) else bytes ! k)"
    proof (cases "k = i div 2")
      case k: True
      then have "2 * k = i" using i by simp
      then show ?thesis using k True "1.prems" by (simp add: set_element_def)
    next
      case False
      then show ?thesis by (auto simp: set_element_def)
    qed
    finally show ?thesis .
  next
    case False
    then have "\<not> (i div 2 \<le> k \<and> 2 * k < length hex)" using i by linarith
    then show ?thesis using False by (subst hexToBytes_loop.simps) auto
  qed
qed

lemma hexToBytes_nth:
  assumes "k < length hex div 2"
  shows "hexToBytes hex ! k = ToUint8 (parseInt16 (substr hex (2 * k) 2))"
proof -
  have "2 * k < length hex" using assms by linarith
  then show ?thesis using assms by (simp add: hexToBytes_def hexToBytes_loop_nth)
qed

lemma substr_pair:
  assumes "2 * k + 1 < length hex"
  shows "substr hex (2 * k) 2 = [hex ! (2 * k), hex ! (2 * k + 1)]"
proof -
  have "drop (2 * k) hex = hex ! (2 * k) # drop (Suc (2 * k)) hex"
    using assms by (simp add: Cons_nth_drop_Suc)
  moreover have "drop (Suc (2 * k)) hex = hex ! (2 * k + 1) # drop (Suc (Suc (2 * k))) hex"
    using assms by (simp add: Cons_nth_drop_Suc)
  ultimately show ?thesis by (simp add: substr_def numeral_2_eq_2)
qed

lemma hexToBytes_hex_nth:
  assumes "\<forall>c\<in>set hex. hex_character c" and "even (length hex)" and "k < length hex div 2"
  shows "unat (hexToBytes hex ! k) = 16 * hex_value (hex ! (2 * k)) + hex_value (hex ! (2 * k + 1))"
proof -
  have k: "2 * k + 1 < length hex" using assms(2,3) by (auto elim!: evenE)
  then have a: "hex_character (hex ! (2 * k))" and b: "hex_character (hex ! (2 * k + 1))"
    using assms(1) by simp_all
  define n where "n = 16 * hex_value (hex ! (2 * k)) + hex_value (hex ! (2 * k + 1))"
  have n: "n < 256"
    using hex_value_less [OF a] hex_value_less [OF b] unfolding n_def by linarith
  have "hexToBytes hex ! k = ToUint8 (Some (int n))"
    using hexToBytes_nth [OF assms(3)] substr_pair [OF k] parseInt16_pair [OF a b]
    unfolding n_def by simp
  also have "\<dots> = of_nat n" by (simp add: ToUint8_def)
  finally have "unat (hexToBytes hex ! k) = n"
    using n by (simp add: unat_of_nat)
  then show ?thesis unfolding n_def .
qed

lemma hex_character_upper:
  assumes "hex_character c"
  shows "hex_character (ascii_upper c) \<and> hex_value (ascii_upper c) = hex_value c"
  using hex_character_cases [OF assms]
  by (elim disjE) (simp_all add: ascii_upper_def hex_character_def hex_value_def hex_table_def str_def)

lemma hex_character_lower:
  assumes "hex_character c"
  shows "hex_character (ascii_lower c) \<and> hex_value (ascii_lower c) = hex_value c"
  using hex_character_cases [OF assms]
  by (elim disjE) (simp_all add: ascii_lower_def hex_character_def hex_value_def hex_table_def str_def)

lemma hexToBytes_same_values:
  assumes "\<forall>c\<in>set hex. hex_character c" and "even (length hex)"
    and "\<forall>c\<in>set hex. hex_character (f c) \<and> hex_value (f c) = hex_value c"
  shows "hexToBytes (map f hex) = hexToBytes hex"
proof (rule nth_equalityI)
  show "length (hexToBytes (map f hex)) = length (hexToBytes hex)"
    by (simp add: hexToBytes_length)
next
  fix k
  assume "k < length (hexToBytes (map f hex))"
  then have k: "k < length hex div 2" by (simp add: hexToBytes_length)
  then have k2: "2 * k + 1 < length hex" using assms(2) by (auto elim!: evenE)
  have "unat (hexToBytes (map f hex) ! k)
          = 16 * hex_value (map f hex ! (2 * k)) + hex_value (map f hex ! (2 * k + 1))"
    using assms k by (intro hexToBytes_hex_nth) simp_all
  also have "\<dots> = 16 * hex_value (hex ! (2 * k)) + hex_value (hex ! (2 * k + 1))"
    using assms(3) k2 by simp
  also have "\<dots> = unat (hexToBytes hex ! k)"
    using assms(1,2) k by (simp add: hexToBytes_hex_nth)
  finally show "hexToBytes (map f hex) ! k = hexToBytes hex ! k"
    by (simp add: word_unat_eq_iff)
qed

text \<open>
  C8. For a string of hexadecimal characters of even length, \<^verbatim>\<open>hexToBytes\<close> returns half as
  many bytes as the string has characters; byte \<open>i\<close> is 16 times the value of the character
  at \<open>2 * i\<close> plus the value of the character at \<open>2 * i + 1\<close>; and the result is the same
  for the string in upper case and in lower case.
\<close>

theorem hexToBytes_decodes:
  assumes "\<forall>c\<in>set hex. hex_character c" and "even (length hex)"
  shows "length (hexToBytes hex) = length hex div 2
         \<and> (\<forall>i < length hex div 2.
               unat (hexToBytes hex ! i)
                 = 16 * hex_value (hex ! (2 * i)) + hex_value (hex ! (2 * i + 1)))
         \<and> hexToBytes (map ascii_upper hex) = hexToBytes hex
         \<and> hexToBytes (map ascii_lower hex) = hexToBytes hex"
  using assms hexToBytes_hex_nth [OF assms]
    hexToBytes_same_values [OF assms, of ascii_upper]
    hexToBytes_same_values [OF assms, of ascii_lower]
  by (simp add: hexToBytes_length hex_character_upper hex_character_lower)

theorem hexToBytes_decodes_witness:
  "length (hexToBytes (str ''0aFF7f'')) = 3
   \<and> unat (hexToBytes (str ''0aFF7f'') ! 0) = 0x0A
   \<and> unat (hexToBytes (str ''0aFF7f'') ! 1) = 0xFF
   \<and> unat (hexToBytes (str ''0aFF7f'') ! 2) = 0x7F
   \<and> hexToBytes (str ''0AFF7F'') = hexToBytes (str ''0aFF7f'')
   \<and> hexToBytes (str ''0aff7f'') = hexToBytes (str ''0aFF7f'')"
proof -
  have h: "\<forall>c\<in>set (str ''0aFF7f''). hex_character c" "even (length (str ''0aFF7f''))"
    by (simp_all add: hex_character_def str_def)
  have u: "map ascii_upper (str ''0aFF7f'') = str ''0AFF7F''"
    and l: "map ascii_lower (str ''0aFF7f'') = str ''0aff7f''"
    by (simp_all add: ascii_upper_def ascii_lower_def str_def)
  note t = hexToBytes_decodes [OF h]
  have "length (hexToBytes (str ''0aFF7f'')) = 3" using t by (simp add: str_def)
  moreover have "unat (hexToBytes (str ''0aFF7f'') ! 0) = 0x0A"
    "unat (hexToBytes (str ''0aFF7f'') ! 1) = 0xFF" "unat (hexToBytes (str ''0aFF7f'') ! 2) = 0x7F"
    using t by (simp_all add: str_def hex_value_def hex_table_def)
  ultimately show ?thesis using t u l by simp
qed

section \<open>The message that is verified\<close>

lemma initial_fields:
  "bytes_needed utf8_initial = 0" "bytes_seen utf8_initial = 0" "code_point utf8_initial = 0"
  "lower_boundary utf8_initial = 0x80" "upper_boundary utf8_initial = 0xBF"
  by (simp_all add: utf8_initial_def)

lemma decode1:
  assumes "b \<le> 0x7F"
  shows "utf8_decoder utf8_initial (b # rest) = b # utf8_decoder utf8_initial rest"
  using assms by (simp add: utf8_decoder.simps initial_fields)

lemma decode2:
  assumes "0xC2 \<le> b1" "b1 \<le> 0xDF" "0x80 \<le> b2" "b2 \<le> 0xBF"
  shows "utf8_decoder utf8_initial (b1 # b2 # rest)
         = (b1 mod 32 * 64 + b2 mod 64) # utf8_decoder utf8_initial rest"
  using assms by (simp add: utf8_decoder.simps utf8_initial_def)

lemma decode3:
  assumes "0xE0 \<le> b1" "b1 \<le> 0xEF"
    and "(if b1 = 0xE0 then 0xA0 else 0x80) \<le> b2" "b2 \<le> (if b1 = 0xED then 0x9F else 0xBF)"
    and "0x80 \<le> b3" "b3 \<le> 0xBF"
  shows "utf8_decoder utf8_initial (b1 # b2 # b3 # rest)
         = ((b1 mod 16 * 64 + b2 mod 64) * 64 + b3 mod 64) # utf8_decoder utf8_initial rest"
  using assms by (simp add: utf8_decoder.simps utf8_initial_def split: if_splits)

lemma decode4:
  assumes "0xF0 \<le> b1" "b1 \<le> 0xF4"
    and "(if b1 = 0xF0 then 0x90 else 0x80) \<le> b2" "b2 \<le> (if b1 = 0xF4 then 0x8F else 0xBF)"
    and "0x80 \<le> b3" "b3 \<le> 0xBF" and "0x80 \<le> b4" "b4 \<le> 0xBF"
  shows "utf8_decoder utf8_initial (b1 # b2 # b3 # b4 # rest)
         = (((b1 mod 8 * 64 + b2 mod 64) * 64 + b3 mod 64) * 64 + b4 mod 64)
           # utf8_decoder utf8_initial rest"
  using assms by (simp add: utf8_decoder.simps utf8_initial_def split: if_splits)

lemma lead_mod_2:
  fixes q :: nat
  assumes "q < 32"
  shows "(0xC0 + q) mod 32 = q"
proof -
  have "(0xC0 + q) mod 32 = (32 * 6 + q) mod 32" by simp
  also have "\<dots> = q mod 32" by (simp only: mod_mult_self4)
  finally show ?thesis using assms by simp
qed

lemma lead_mod_3:
  fixes q :: nat
  assumes "q < 16"
  shows "(0xE0 + q) mod 16 = q"
proof -
  have "(0xE0 + q) mod 16 = (16 * 14 + q) mod 16" by simp
  also have "\<dots> = q mod 16" by (simp only: mod_mult_self4)
  finally show ?thesis using assms by simp
qed

lemma lead_mod_4:
  fixes q :: nat
  assumes "q < 8"
  shows "(0xF0 + q) mod 8 = q"
proof -
  have "(0xF0 + q) mod 8 = (8 * 30 + q) mod 8" by simp
  also have "\<dots> = q mod 8" by (simp only: mod_mult_self4)
  finally show ?thesis using assms by simp
qed

lemma trail_mod:
  fixes r :: nat
  shows "(0x80 + r mod 64) mod 64 = r mod 64"
proof -
  have "(0x80 + r mod 64) mod 64 = (64 * 2 + r mod 64) mod 64" by simp
  also have "\<dots> = r mod 64 mod 64" by (simp only: mod_mult_self4)
  finally show ?thesis by simp
qed

lemma trail_range:
  fixes r :: nat
  shows "0x80 \<le> 0x80 + r mod 64" and "0x80 + r mod 64 \<le> 0xBF"
proof -
  have "r mod 64 < 64" by simp
  then show "0x80 \<le> 0x80 + r mod 64" and "0x80 + r mod 64 \<le> 0xBF" by linarith+
qed

lemma div_div_64:
  "(cp::nat) div 64 div 64 = cp div 4096" "(cp::nat) div 4096 div 64 = cp div 262144"
  by (simp_all add: div_mult2_eq [symmetric])

lemma decode_encode_2:
  assumes "0x7F < cp" and "cp \<le> 0x7FF"
  shows "utf8_decoder utf8_initial ([0xC0 + cp div 64, 0x80 + cp mod 64] @ rest)
         = cp # utf8_decoder utf8_initial rest"
proof -
  define q where "q = cp div 64"
  have cp: "cp = q * 64 + cp mod 64" by (simp add: q_def)
  have r: "cp mod 64 < 64" by simp
  have q: "2 \<le> q" "q < 32" using cp r assms by linarith+
  have "utf8_decoder utf8_initial ((0xC0 + q) # (0x80 + cp mod 64) # rest)
        = ((0xC0 + q) mod 32 * 64 + (0x80 + cp mod 64) mod 64) # utf8_decoder utf8_initial rest"
    using q trail_range [of cp] by (intro decode2) linarith+
  also have "(0xC0 + q) mod 32 * 64 + (0x80 + cp mod 64) mod 64 = cp"
    using cp by (simp only: lead_mod_2 [OF q(2)] trail_mod)
  finally show ?thesis by (simp add: q_def)
qed

lemma decode_encode_3:
  assumes "0x7FF < cp" and "cp \<le> 0xFFFF" and "cp < 0xD800 \<or> 0xE000 \<le> cp"
  shows "utf8_decoder utf8_initial
           ([0xE0 + cp div 4096, 0x80 + cp div 64 mod 64, 0x80 + cp mod 64] @ rest)
         = cp # utf8_decoder utf8_initial rest"
proof -
  define d where "d = cp div 64"
  define q where "q = cp div 4096"
  have cp: "cp = d * 64 + cp mod 64" by (simp add: d_def)
  have r: "cp mod 64 < 64" by simp
  have "d div 64 = q" by (simp add: d_def q_def div_div_64)
  then have d: "d = q * 64 + d mod 64" by (metis div_mult_mod_eq)
  have m: "d mod 64 < 64" by simp
  have q: "q < 16" using cp r d m assms by linarith
  have lo: "(if 0xE0 + q = 0xE0 then 0xA0 else 0x80) \<le> 0x80 + d mod 64"
    using cp r d m assms by (cases "q = 0") simp_all
  have hi: "0x80 + d mod 64 \<le> (if 0xE0 + q = 0xED then 0x9F else 0xBF)"
  proof (cases "q = 13")
    case True
    then have "d mod 64 < 32" using cp r d m assms by linarith
    then show ?thesis using True by simp
  next
    case False
    then show ?thesis using m by simp
  qed
  have "utf8_decoder utf8_initial ((0xE0 + q) # (0x80 + d mod 64) # (0x80 + cp mod 64) # rest)
        = (((0xE0 + q) mod 16 * 64 + (0x80 + d mod 64) mod 64) * 64 + (0x80 + cp mod 64) mod 64)
          # utf8_decoder utf8_initial rest"
    using q lo hi trail_range [of cp] by (intro decode3) simp_all
  also have "((0xE0 + q) mod 16 * 64 + (0x80 + d mod 64) mod 64) * 64 + (0x80 + cp mod 64) mod 64
             = (q * 64 + d mod 64) * 64 + cp mod 64"
    by (simp only: lead_mod_3 [OF q] trail_mod)
  also have "\<dots> = cp" using cp d by simp
  finally show ?thesis by (simp add: q_def d_def)
qed

lemma decode_encode_4:
  assumes "0xFFFF < cp" and "cp < 0x110000"
  shows "utf8_decoder utf8_initial
           ([0xF0 + cp div 262144, 0x80 + cp div 4096 mod 64, 0x80 + cp div 64 mod 64,
             0x80 + cp mod 64] @ rest)
         = cp # utf8_decoder utf8_initial rest"
proof -
  define d where "d = cp div 64"
  define e where "e = cp div 4096"
  define q where "q = cp div 262144"
  have cp: "cp = d * 64 + cp mod 64" by (simp add: d_def)
  have r: "cp mod 64 < 64" by simp
  have "d div 64 = e" by (simp add: d_def e_def div_div_64)
  then have d: "d = e * 64 + d mod 64" by (metis div_mult_mod_eq)
  have m: "d mod 64 < 64" by simp
  have "e div 64 = q" by (simp add: e_def q_def div_div_64)
  then have e: "e = q * 64 + e mod 64" by (metis div_mult_mod_eq)
  have n: "e mod 64 < 64" by simp
  have q: "q < 8" "q \<le> 4" using cp r d m e n assms by linarith+
  have lo: "(if 0xF0 + q = 0xF0 then 0x90 else 0x80) \<le> 0x80 + e mod 64"
  proof (cases "q = 0")
    case True
    then have "16 \<le> e mod 64" using cp r d m e n assms by linarith
    then show ?thesis using True by simp
  next
    case False
    then show ?thesis by simp
  qed
  have hi: "0x80 + e mod 64 \<le> (if 0xF0 + q = 0xF4 then 0x8F else 0xBF)"
  proof (cases "q = 4")
    case True
    then have "e mod 64 < 16" using cp r d m e n assms by linarith
    then show ?thesis using True by simp
  next
    case False
    then show ?thesis using n by simp
  qed
  have "utf8_decoder utf8_initial
          ((0xF0 + q) # (0x80 + e mod 64) # (0x80 + d mod 64) # (0x80 + cp mod 64) # rest)
        = ((((0xF0 + q) mod 8 * 64 + (0x80 + e mod 64) mod 64) * 64 + (0x80 + d mod 64) mod 64) * 64
            + (0x80 + cp mod 64) mod 64)
          # utf8_decoder utf8_initial rest"
    using q lo hi trail_range [of cp] trail_range [of d] by (intro decode4) simp_all
  also have "(((0xF0 + q) mod 8 * 64 + (0x80 + e mod 64) mod 64) * 64 + (0x80 + d mod 64) mod 64) * 64
               + (0x80 + cp mod 64) mod 64
             = ((q * 64 + e mod 64) * 64 + d mod 64) * 64 + cp mod 64"
    by (simp only: lead_mod_4 [OF q(1)] trail_mod)
  also have "\<dots> = cp" using cp d e by simp
  finally show ?thesis by (simp add: q_def d_def e_def)
qed

lemma decode_encode_cp:
  assumes "scalar_value cp"
  shows "utf8_decoder utf8_initial (utf8_encode_cp cp @ rest) = cp # utf8_decoder utf8_initial rest"
proof -
  consider (one) "cp \<le> 0x7F" | (two) "0x7F < cp" "cp \<le> 0x7FF"
    | (three) "0x7FF < cp" "cp \<le> 0xFFFF" | (four) "0xFFFF < cp"
    by linarith
  then show ?thesis
  proof cases
    case one
    then show ?thesis by (simp add: utf8_encode_cp_def decode1)
  next
    case two
    then show ?thesis using decode_encode_2 [OF two] by (simp add: utf8_encode_cp_def)
  next
    case three
    have "cp < 0xD800 \<or> 0xE000 \<le> cp" using assms by (auto simp: scalar_value_def)
    from decode_encode_3 [OF three this] show ?thesis
      using three by (simp add: utf8_encode_cp_def)
  next
    case four
    have "cp < 0x110000" using assms four by (auto simp: scalar_value_def)
    from decode_encode_4 [OF four this] show ?thesis
      using four by (simp add: utf8_encode_cp_def)
  qed
qed

lemma decode_encode:
  assumes "\<forall>cp\<in>set cps. scalar_value cp"
  shows "utf8_decoder utf8_initial (concat (map utf8_encode_cp cps)) = cps"
  using assms
proof (induction cps)
  case Nil
  show ?case by (simp add: utf8_decoder.simps initial_fields)
next
  case (Cons cp cps)
  then show ?case by (simp add: decode_encode_cp)
qed

lemma encode_cp_bytes:
  assumes "scalar_value cp"
  shows "\<forall>b\<in>set (utf8_encode_cp cp). b < 256"
proof -
  have t: "0x80 + r mod 64 < 256" for r :: nat
    using trail_range(2) [of r] by linarith
  consider (one) "cp \<le> 0x7F" | (two) "0x7F < cp" "cp \<le> 0x7FF"
    | (three) "0x7FF < cp" "cp \<le> 0xFFFF" | (four) "0xFFFF < cp"
    by linarith
  then show ?thesis
  proof cases
    case one
    then show ?thesis by (simp add: utf8_encode_cp_def)
  next
    case two
    then have "cp div 64 < 32" by (intro less_mult_imp_div_less) simp
    then show ?thesis using two t by (simp add: utf8_encode_cp_def)
  next
    case three
    then have "cp div 4096 < 16" by (intro less_mult_imp_div_less) simp
    then show ?thesis using three t by (simp add: utf8_encode_cp_def)
  next
    case four
    have "cp < 0x110000" using assms four by (auto simp: scalar_value_def)
    then have "cp div 262144 < 5" by (intro less_mult_imp_div_less) simp
    then show ?thesis using four t by (simp add: utf8_encode_cp_def)
  qed
qed

lemma unat_utf8_encode:
  assumes "\<forall>cp\<in>set cps. scalar_value cp"
  shows "map unat (utf8_encode cps) = concat (map utf8_encode_cp cps)"
proof -
  have "\<forall>b\<in>set (concat (map utf8_encode_cp cps)). b < 256"
    using assms encode_cp_bytes by auto
  then have "map (\<lambda>b. unat (of_nat b :: byte)) (concat (map utf8_encode_cp cps))
             = concat (map utf8_encode_cp cps)"
    by (intro map_idI) (auto simp: unat_of_nat)
  then show ?thesis by (simp add: utf8_encode_def comp_def)
qed

lemma encode_cp_no_mark:
  assumes "scalar_value cp" and "cp \<noteq> 0xFEFF"
  shows "take 3 (utf8_encode_cp cp @ rest) \<noteq> [0xEF, 0xBB, 0xBF]"
proof -
  consider (one) "cp \<le> 0x7F" | (two) "0x7F < cp" "cp \<le> 0x7FF"
    | (three) "0x7FF < cp" "cp \<le> 0xFFFF" | (four) "0xFFFF < cp"
    by linarith
  then show ?thesis
  proof cases
    case one
    then show ?thesis by (simp add: utf8_encode_cp_def)
  next
    case two
    then have "cp div 64 < 32" by (intro less_mult_imp_div_less) simp
    then show ?thesis using two by (simp add: utf8_encode_cp_def)
  next
    case three
    define d where "d = cp div 64"
    have cp: "cp = d * 64 + cp mod 64" by (simp add: d_def)
    have "d div 64 = cp div 4096" by (simp add: d_def div_div_64)
    then have d: "d = cp div 4096 * 64 + d mod 64" by (metis div_mult_mod_eq)
    have "\<not> (cp div 4096 = 15 \<and> d mod 64 = 59 \<and> cp mod 64 = 63)"
      using cp d assms(2) by auto
    then have "\<not> (0xE0 + cp div 4096 = 0xEF \<and> 0x80 + d mod 64 = 0xBB \<and> 0x80 + cp mod 64 = 0xBF)"
      by linarith
    then show ?thesis using three by (auto simp: utf8_encode_cp_def d_def)
  next
    case four
    then show ?thesis by (simp add: utf8_encode_cp_def)
  qed
qed

lemma utf8_decode_encode:
  assumes "\<forall>cp\<in>set cps. scalar_value cp" and "cps \<noteq> [] \<longrightarrow> hd cps \<noteq> 0xFEFF"
  shows "utf8_decode (utf8_encode cps) = cps"
proof -
  have "take 3 (utf8_encode cps) \<noteq> [0xEF, 0xBB, 0xBF]"
  proof
    assume "take 3 (utf8_encode cps) = [0xEF, 0xBB, 0xBF]"
    then have "map unat (take 3 (utf8_encode cps)) = map unat [0xEF, 0xBB, 0xBF :: byte]"
      by simp
    then have m: "take 3 (concat (map utf8_encode_cp cps)) = [0xEF, 0xBB, 0xBF]"
      by (simp add: take_map [symmetric] unat_utf8_encode [OF assms(1)] del: take_map)
    show False
    proof (cases cps)
      case Nil
      then show False using m by simp
    next
      case (Cons cp rest)
      then have "scalar_value cp" "cp \<noteq> 0xFEFF" using assms by simp_all
      from encode_cp_no_mark [OF this] show False using m Cons by simp
    qed
  qed
  then show ?thesis
    by (simp add: utf8_decode_def unat_utf8_encode [OF assms(1)] decode_encode [OF assms(1)])
qed

lemma utf16_units:
  assumes "scalar_value cp"
  shows "\<forall>u\<in>set (utf16_encode_cp cp). u < 65536"
proof (cases "cp < 0x10000")
  case True
  then show ?thesis by (simp add: utf16_encode_cp_def)
next
  case False
  then have "cp - 0x10000 < 1024 * 1024" using assms by (auto simp: scalar_value_def)
  then have "(cp - 0x10000) div 1024 < 1024" by (intro less_mult_imp_div_less) simp
  moreover have "(cp - 0x10000) mod 1024 < 1024" by simp
  ultimately show ?thesis using False by (simp add: utf16_encode_cp_def)
qed

lemma unat_utf16_encode:
  assumes "\<forall>cp\<in>set cps. scalar_value cp"
  shows "map unat (utf16_encode cps) = concat (map utf16_encode_cp cps)"
proof -
  have "\<forall>u\<in>set (concat (map utf16_encode_cp cps)). u < 65536"
    using assms utf16_units by auto
  then have "map (\<lambda>u. unat (of_nat u :: code_unit)) (concat (map utf16_encode_cp cps))
             = concat (map utf16_encode_cp cps)"
    by (intro map_idI) (auto simp: unat_of_nat)
  then show ?thesis by (simp add: utf16_encode_def comp_def)
qed

lemma to_scalar_values_plain:
  assumes "c < 0xD800 \<or> 0xDFFF < c"
  shows "to_scalar_values (c # rest) = c # to_scalar_values rest"
  using assms by (cases rest) auto

lemma surrogate_mod:
  fixes x :: nat
  assumes "x < 1024"
  shows "(0xD800 + x) mod 1024 = x" and "(0xDC00 + x) mod 1024 = x"
proof -
  have "(0xD800 + x) mod 1024 = (1024 * 54 + x) mod 1024" by simp
  also have "\<dots> = x mod 1024" by (simp only: mod_mult_self4)
  finally show "(0xD800 + x) mod 1024 = x" using assms by simp
  have "(0xDC00 + x) mod 1024 = (1024 * 55 + x) mod 1024" by simp
  also have "\<dots> = x mod 1024" by (simp only: mod_mult_self4)
  finally show "(0xDC00 + x) mod 1024 = x" using assms by simp
qed

lemma to_scalar_values_encode_cp:
  assumes "scalar_value cp"
  shows "to_scalar_values (utf16_encode_cp cp @ rest) = cp # to_scalar_values rest"
proof (cases "cp < 0x10000")
  case True
  then have "cp < 0xD800 \<or> 0xDFFF < cp" using assms by (auto simp: scalar_value_def)
  then show ?thesis using True by (simp add: utf16_encode_cp_def to_scalar_values_plain)
next
  case False
  define x where "x = (cp - 0x10000) div 1024"
  define y where "y = (cp - 0x10000) mod 1024"
  have "cp - 0x10000 < 1024 * 1024" using assms False by (auto simp: scalar_value_def)
  then have x: "x < 1024" unfolding x_def by (intro less_mult_imp_div_less) simp
  have y: "y < 1024" by (simp add: y_def)
  have "cp - 0x10000 = x * 1024 + y" by (simp add: x_def y_def)
  then have cp: "cp = 0x10000 + 1024 * x + y" using False by linarith
  have "to_scalar_values ((0xD800 + x) # (0xDC00 + y) # rest)
        = (0x10000 + 1024 * ((0xD800 + x) mod 1024) + (0xDC00 + y) mod 1024) # to_scalar_values rest"
    using x y by simp
  also have "0x10000 + 1024 * ((0xD800 + x) mod 1024) + (0xDC00 + y) mod 1024 = cp"
    using cp by (simp only: surrogate_mod [OF x] surrogate_mod [OF y])
  finally show ?thesis using False by (simp add: utf16_encode_cp_def x_def y_def)
qed

lemma to_scalar_values_encode:
  assumes "\<forall>cp\<in>set cps. scalar_value cp"
  shows "to_scalar_values (concat (map utf16_encode_cp cps)) = cps"
  using assms by (induction cps) (simp_all add: to_scalar_values_encode_cp)

lemma utf16_encode_head:
  assumes "\<forall>cp\<in>set cps. scalar_value cp" and "concat (map utf16_encode_cp cps) \<noteq> []"
  shows "hd (concat (map utf16_encode_cp cps)) < 0xDC00 \<or> 0xDFFF < hd (concat (map utf16_encode_cp cps))"
proof (cases cps)
  case Nil
  then show ?thesis using assms(2) by simp
next
  case (Cons cp rest)
  then have s: "scalar_value cp" using assms(1) by simp
  show ?thesis
  proof (cases "cp < 0x10000")
    case True
    then show ?thesis using s Cons by (auto simp: utf16_encode_cp_def scalar_value_def)
  next
    case False
    then have "cp - 0x10000 < 1024 * 1024" using s by (auto simp: scalar_value_def)
    then have "(cp - 0x10000) div 1024 < 1024" by (intro less_mult_imp_div_less) simp
    then show ?thesis using False Cons by (simp add: utf16_encode_cp_def)
  qed
qed

lemma to_scalar_values_append:
  assumes "ys = [] \<or> hd ys < 0xDC00 \<or> 0xDFFF < hd ys"
  shows "to_scalar_values (xs @ ys) = to_scalar_values xs @ to_scalar_values ys"
  using assms
proof (induction xs rule: to_scalar_values.induct)
  case 1
  show ?case by simp
next
  case (2 c)
  show ?case
  proof (cases ys)
    case Nil
    then show ?thesis by simp
  next
    case (Cons y ys')
    then have "y < 0xDC00 \<or> 0xDFFF < y" using "2.prems" by simp
    then show ?thesis using Cons by auto
  qed
next
  case (3 c d cs)
  then show ?case by auto
qed

lemma utf8_encode_append: "utf8_encode (xs @ ys) = utf8_encode xs @ utf8_encode ys"
  by (simp add: utf8_encode_def)

lemma signed_message_well_formed:
  assumes "\<forall>cp\<in>set cps. scalar_value cp"
    and "cps \<noteq> [] \<longrightarrow> hd cps \<noteq> 0xFEFF"
    and "raw_body req = utf8_encode cps"
  shows "signed_message timestamp (request_text req) = TextEncoder_encode timestamp @ raw_body req"
proof -
  let ?units = "concat (map utf16_encode_cp cps)"
  have "request_text req = utf16_encode cps"
    using utf8_decode_encode [OF assms(1,2)] by (simp add: request_text_def assms(3))
  then have "map unat (timestamp @ request_text req) = map unat timestamp @ ?units"
    by (simp add: unat_utf16_encode [OF assms(1)])
  moreover have "to_scalar_values (map unat timestamp @ ?units)
                 = to_scalar_values (map unat timestamp) @ to_scalar_values ?units"
    using utf16_encode_head [OF assms(1)] by (intro to_scalar_values_append) blast
  ultimately have "to_scalar_values (map unat (timestamp @ request_text req))
                   = to_scalar_values (map unat timestamp) @ cps"
    by (simp add: to_scalar_values_encode [OF assms(1)])
  then show ?thesis
    by (simp add: signed_message_def TextEncoder_encode_def utf8_encode_append assms(3))
qed

lemma message_platform_verifies:
  "verifyDiscordSignature (message_platform m) (raw_request bytes) body
   = Inr (signed_message (str ''1700000000'') body = m)"
proof -
  have "example_key \<noteq> []" "example_signature \<noteq> []" "str ''1700000000'' \<noteq> []"
    by (simp_all add: example_key_def example_signature_def str_def)
  then show ?thesis
    using example_key_length
    by (simp add: verifyDiscordSignature_def message_platform_def raw_request_def
        import_raw_Ed25519_def)
qed

lemma message_of_FF:
  "signed_message (str ''1700000000'') (request_text (raw_request [0xFF]))
   = TextEncoder_encode (str ''1700000000'') @ [0xEF, 0xBF, 0xBD]"
  by (simp add: signed_message_def request_text_def raw_request_def TextEncoder_encode_def
      utf8_decode_def utf8_decoder.simps utf8_initial_def utf16_encode_def utf16_encode_cp_def
      utf8_encode_def utf8_encode_cp_def str_def)

lemma message_of_marked:
  "signed_message (str ''1700000000'') (request_text (raw_request [0xEF, 0xBB, 0xBF, 0x7B, 0x7D]))
   = TextEncoder_encode (str ''1700000000'') @ [0x7B, 0x7D]"
  by (simp add: signed_message_def request_text_def raw_request_def TextEncoder_encode_def
      utf8_decode_def utf8_decoder.simps utf8_initial_def utf16_encode_def utf16_encode_cp_def
      utf8_encode_def utf8_encode_cp_def str_def)

text \<open>
  C2, as the code has it. The handler reads the body with \<^verbatim>\<open>req.text()\<close> and hands it to
  \<^verbatim>\<open>verifyDiscordSignature\<close>; for a request with both headers, a configured key and a key
  that \<^verbatim>\<open>importKey\<close> accepts, the result is that of \<^verbatim>\<open>crypto.subtle.verify\<close> on the
  decoded signature and the message \<^verbatim>\<open>encode(timestamp + body)\<close>. When the raw body is
  well-formed UTF-8 (the encoding of a sequence of Unicode scalar values) that does not begin
  with a byte order mark, that message is the UTF-8 encoding of the timestamp header followed
  by the raw bytes of the body, unchanged; and when the signature does not verify over it, the
  endpoint answers 401.
\<close>

theorem verified_message_raw_body:
  assumes "x_signature_ed25519 req = Some signature" and "signature \<noteq> []"
    and "x_signature_timestamp req = Some timestamp" and "timestamp \<noteq> []"
    and "env_DISCORD_PUBLIC_KEY P = Some publicKey" and "publicKey \<noteq> []"
    and "importKey P (hexToBytes publicKey) = Inr key"
  shows "verifyDiscordSignature P req (request_text req)
           = verify P key (hexToBytes signature) (TextEncoder_encode (timestamp @ request_text req))
         \<and> (\<forall>cps. (\<forall>cp\<in>set cps. scalar_value cp) \<and> (cps \<noteq> [] \<longrightarrow> hd cps \<noteq> 0xFEFF)
                  \<and> raw_body req = utf8_encode cps
               \<longrightarrow> verifyDiscordSignature P req (request_text req)
                     = verify P key (hexToBytes signature)
                         (TextEncoder_encode timestamp @ raw_body req)
                   \<and> (verify P key (hexToBytes signature)
                         (TextEncoder_encode timestamp @ raw_body req) = Inr False
                       \<longrightarrow> interactions P req
                             = Inr \<lparr>res_status = 401, res_body = Text (str ''Unauthorized'')\<rparr>))"
proof -
  have v: "verifyDiscordSignature P req (request_text req)
           = verify P key (hexToBytes signature) (signed_message timestamp (request_text req))"
    using verify_present [OF assms(1-6)] assms(7) by simp
  show ?thesis
  proof (intro conjI allI impI)
    show "verifyDiscordSignature P req (request_text req)
           = verify P key (hexToBytes signature) (TextEncoder_encode (timestamp @ request_text req))"
      using v by (simp add: signed_message_def)
  next
    fix cps
    assume w: "(\<forall>cp\<in>set cps. scalar_value cp) \<and> (cps \<noteq> [] \<longrightarrow> hd cps \<noteq> 0xFEFF)
                  \<and> raw_body req = utf8_encode cps"
    then have m: "signed_message timestamp (request_text req)
                  = TextEncoder_encode timestamp @ raw_body req"
      by (intro signed_message_well_formed [of cps]) simp_all
    show e: "verifyDiscordSignature P req (request_text req)
          = verify P key (hexToBytes signature) (TextEncoder_encode timestamp @ raw_body req)"
      using v m by simp
    assume "verify P key (hexToBytes signature) (TextEncoder_encode timestamp @ raw_body req)
            = Inr False"
    then have "verifyDiscordSignature P req (request_text req) = Inr False" using e by simp
    then show "interactions P req
               = Inr \<lparr>res_status = 401, res_body = Text (str ''Unauthorized'')\<rparr>"
      using interactions_rejected [of P req] by (simp add: unauthorized_def)
  qed
qed

theorem verified_message_raw_body_witness:
  "verifyDiscordSignature
      (message_platform (TextEncoder_encode (str ''1700000000'')
         @ [0x7B, 0xE2, 0x82, 0xAC, 0xF0, 0x9F, 0x8E, 0xB1, 0xC3, 0xA9, 0x7D]))
      (raw_request [0x7B, 0xE2, 0x82, 0xAC, 0xF0, 0x9F, 0x8E, 0xB1, 0xC3, 0xA9, 0x7D])
      (request_text (raw_request [0x7B, 0xE2, 0x82, 0xAC, 0xF0, 0x9F, 0x8E, 0xB1, 0xC3, 0xA9, 0x7D]))
     = Inr True
   \<and> verifyDiscordSignature
      (message_platform (TextEncoder_encode (str ''1700000000'') @ [0x7B, 0x7D]))
      (raw_request [0x7B, 0xE2, 0x82, 0xAC, 0xF0, 0x9F, 0x8E, 0xB1, 0xC3, 0xA9, 0x7D])
      (request_text (raw_request [0x7B, 0xE2, 0x82, 0xAC, 0xF0, 0x9F, 0x8E, 0xB1, 0xC3, 0xA9, 0x7D]))
     = Inr False
   \<and> interactions
      (message_platform (TextEncoder_encode (str ''1700000000'') @ [0x7B, 0x7D]))
      (raw_request [0x7B, 0xE2, 0x82, 0xAC, 0xF0, 0x9F, 0x8E, 0xB1, 0xC3, 0xA9, 0x7D])
     = Inr \<lparr>res_status = 401, res_body = Text (str ''Unauthorized'')\<rparr>"
proof -
  let ?raw = "[0x7B, 0xE2, 0x82, 0xAC, 0xF0, 0x9F, 0x8E, 0xB1, 0xC3, 0xA9, 0x7D] :: byte list"
  let ?cps = "[0x7B, 0x20AC, 0x1F3B1, 0xE9, 0x7D] :: nat list"
  have ne: "example_key \<noteq> []" "example_signature \<noteq> []" "str ''1700000000'' \<noteq> []"
    by (simp_all add: example_key_def example_signature_def str_def)
  have k: "importKey (message_platform m) (hexToBytes example_key) = Inr (hexToBytes example_key)"
    for m
    using example_key_length by (simp add: message_platform_def import_raw_Ed25519_def)
  have w: "(\<forall>cp\<in>set ?cps. scalar_value cp) \<and> (?cps \<noteq> [] \<longrightarrow> hd ?cps \<noteq> 0xFEFF)
           \<and> raw_body (raw_request ?raw) = utf8_encode ?cps"
    by (simp add: scalar_value_def raw_request_def utf8_encode_def utf8_encode_cp_def)
  have t: "verifyDiscordSignature (message_platform m) (raw_request ?raw)
             (request_text (raw_request ?raw))
           = verify (message_platform m) (hexToBytes example_key) (hexToBytes example_signature)
               (TextEncoder_encode (str ''1700000000'') @ raw_body (raw_request ?raw))
           \<and> (verify (message_platform m) (hexToBytes example_key) (hexToBytes example_signature)
                 (TextEncoder_encode (str ''1700000000'') @ raw_body (raw_request ?raw)) = Inr False
               \<longrightarrow> interactions (message_platform m) (raw_request ?raw)
                     = Inr \<lparr>res_status = 401, res_body = Text (str ''Unauthorized'')\<rparr>)" for m
    using verified_message_raw_body [of "raw_request ?raw" example_signature "str ''1700000000''"
        "message_platform m" example_key "hexToBytes example_key", THEN conjunct2, rule_format,
        OF _ _ _ _ _ _ _ w] ne k [of m]
    by (simp add: raw_request_def message_platform_def)
  show ?thesis
    using t [of "TextEncoder_encode (str ''1700000000'') @ ?raw"]
      t [of "TextEncoder_encode (str ''1700000000'') @ [0x7B, 0x7D]"]
    by (simp add: message_platform_def raw_request_def)
qed

text \<open>
  C2 as it is written fails for a body that is not well-formed UTF-8 and for a body that
  begins with a byte order mark. On a platform where the signature verifies for the UTF-8
  encoding of the timestamp followed by the raw body \<^verbatim>\<open>FF\<close>, the key is imported and
  \<^verbatim>\<open>verify\<close> on that message is true, yet \<^verbatim>\<open>verifyDiscordSignature\<close> returns false and
  the endpoint answers 401: the message it verifies ends with the three bytes of U+FFFD, and
  where the signature verifies for that message it returns true. Of the raw body
  \<^verbatim>\<open>EF BB BF 7B 7D\<close> the verified message has the last two bytes only.
\<close>

theorem verified_message_raw_body_counterexample:
  "importKey (message_platform (TextEncoder_encode (str ''1700000000'') @ [0xFF]))
      (hexToBytes example_key) = Inr (hexToBytes example_key)
   \<and> verify (message_platform (TextEncoder_encode (str ''1700000000'') @ [0xFF]))
        (hexToBytes example_key) (hexToBytes example_signature)
        (TextEncoder_encode (str ''1700000000'') @ raw_body (raw_request [0xFF])) = Inr True
   \<and> verifyDiscordSignature (message_platform (TextEncoder_encode (str ''1700000000'') @ [0xFF]))
        (raw_request [0xFF]) (request_text (raw_request [0xFF])) = Inr False
   \<and> interactions (message_platform (TextEncoder_encode (str ''1700000000'') @ [0xFF]))
        (raw_request [0xFF]) = Inr \<lparr>res_status = 401, res_body = Text (str ''Unauthorized'')\<rparr>
   \<and> verifyDiscordSignature
        (message_platform (TextEncoder_encode (str ''1700000000'') @ [0xEF, 0xBF, 0xBD]))
        (raw_request [0xFF]) (request_text (raw_request [0xFF])) = Inr True
   \<and> verifyDiscordSignature
        (message_platform (TextEncoder_encode (str ''1700000000'') @ [0xEF, 0xBB, 0xBF, 0x7B, 0x7D]))
        (raw_request [0xEF, 0xBB, 0xBF, 0x7B, 0x7D])
        (request_text (raw_request [0xEF, 0xBB, 0xBF, 0x7B, 0x7D])) = Inr False
   \<and> verifyDiscordSignature
        (message_platform (TextEncoder_encode (str ''1700000000'') @ [0x7B, 0x7D]))
        (raw_request [0xEF, 0xBB, 0xBF, 0x7B, 0x7D])
        (request_text (raw_request [0xEF, 0xBB, 0xBF, 0x7B, 0x7D])) = Inr True"
proof -
  let ?P = "message_platform (TextEncoder_encode (str ''1700000000'') @ [0xFF])"
  have k: "importKey ?P (hexToBytes example_key) = Inr (hexToBytes example_key)"
    using example_key_length by (simp add: message_platform_def import_raw_Ed25519_def)
  have v: "verify ?P (hexToBytes example_key) (hexToBytes example_signature)
        (TextEncoder_encode (str ''1700000000'') @ raw_body (raw_request [0xFF])) = Inr True"
    by (simp add: message_platform_def raw_request_def)
  have f: "verifyDiscordSignature ?P (raw_request [0xFF]) (request_text (raw_request [0xFF]))
           = Inr False"
    by (simp add: message_platform_verifies message_of_FF)
  have i: "interactions ?P (raw_request [0xFF])
           = Inr \<lparr>res_status = 401, res_body = Text (str ''Unauthorized'')\<rparr>"
    using interactions_rejected [OF f] by (simp add: unauthorized_def)
  show ?thesis
    using k v f i by (simp add: message_platform_verifies message_of_FF message_of_marked)
qed

end
